theory Spec2Isabelle
  imports
    Main
    "HOL-Library.AList"
    "HOL-Library.Multiset"
    "HOL-Library.Char_ord"
    "HOL-Library.List_Lexorder"
    "HOL-Library.Product_Lexorder"
begin

section \<open>TaskMaster: the dashboard script of \<^verbatim>\<open>taskmaster.py\<close>\<close>

text \<open>
  The program is one Streamlit script that is executed from top to bottom on every user
  interaction (one \<^emph>\<open>pass\<close>). A pass reads the widget state, issues at most one command
  against the \<^verbatim>\<open>tasks\<close> collection, fetches the tasks of the current user and renders
  them. The embedding follows the script section by section: the sidebar form, the fetch,
  the KPI metrics, the chart, the upcoming-deadlines table and the editable task list.
  Opening the connection and the ping (lines 23-52) come first in every pass and stop the
  script when they fail; a pass is modelled from the sidebar on, after both succeeded.
\<close>

subsection \<open>Values, documents, exceptions\<close>

text \<open>
  A task is a schemaless BSON document, read by the script as a Python dict. Only scalar
  values are modelled (arrays and embedded documents are never written by the script).
  \<open>VId\<close> is an ObjectId; \<open>VDate\<close> is a UTC instant in milliseconds since the epoch,
  the precision BSON stores.
\<close>

datatype val = VNull | VBool bool | VInt int | VStr string | VId nat | VDate int

type_synonym doc = "(string \<times> val) list"

datatype error =
    KeyError string
  | ValueError val
  | AttributeError string
  | PyMongoError string
  | DuplicateKeyError val

text \<open>\<^verbatim>\<open>t[k]\<close> raises KeyError on a missing key; \<^verbatim>\<open>t.get(k, d)\<close> falls back to \<open>d\<close>.\<close>

definition get_item :: "doc \<Rightarrow> string \<Rightarrow> error + val" where
  "get_item t k = (case map_of t k of None \<Rightarrow> Inl (KeyError k) | Some v \<Rightarrow> Inr v)"

definition get_default :: "doc \<Rightarrow> string \<Rightarrow> val \<Rightarrow> val" where
  "get_default t k d = (case map_of t k of None \<Rightarrow> d | Some v \<Rightarrow> v)"

text \<open>\<^verbatim>\<open>options.index(x)\<close>: the position of the first equal element, ValueError if none.\<close>

fun index_of :: "val list \<Rightarrow> val \<Rightarrow> error + nat" where
  "index_of [] x = Inl (ValueError x)"
| "index_of (y # ys) x =
     (if y = x then Inr 0
      else (case index_of ys x of Inl e \<Rightarrow> Inl e | Inr i \<Rightarrow> Inr (Suc i)))"

text \<open>A comprehension whose element expression may raise stops at the first exception.\<close>

fun traverse :: "('a \<Rightarrow> error + 'b) \<Rightarrow> 'a list \<Rightarrow> error + 'b list" where
  "traverse f [] = Inr []"
| "traverse f (x # xs) =
     (case f x of
        Inl e \<Rightarrow> Inl e
      | Inr y \<Rightarrow> (case traverse f xs of Inl e \<Rightarrow> Inl e | Inr ys \<Rightarrow> Inr (y # ys)))"

subsection \<open>Strings\<close>

text \<open>
  \<^verbatim>\<open>str.strip()\<close> removes leading and trailing whitespace. Characters are code points
  below 256; \<open>whitespace\<close> lists those of them for which \<^verbatim>\<open>str.isspace\<close> holds.
\<close>

definition whitespace :: "char list" where
  "whitespace =
     [CHR 0x09, CHR 0x0A, CHR 0x0B, CHR 0x0C, CHR 0x0D,
      CHR 0x1C, CHR 0x1D, CHR 0x1E, CHR 0x1F, CHR 0x20, CHR 0x85, CHR 0xA0]"

definition is_space :: "char \<Rightarrow> bool" where
  "is_space c = (c \<in> set whitespace)"

definition strip :: "string \<Rightarrow> string" where
  "strip s = rev (dropWhile is_space (rev (dropWhile is_space s)))"

subsection \<open>The option lists and the widget selections\<close>

definition STATUS_OPTIONS :: "string list" where
  "STATUS_OPTIONS = [''Pending'', ''In Progress'', ''Completed'']"

definition PRIORITY_OPTIONS :: "string list" where
  "PRIORITY_OPTIONS = [''High'', ''Medium'', ''Low'']"

text \<open>
  A selectbox or multiselect over an option list returns elements of that list, so a
  selection is a value of an enumeration and \<open>status_str\<close>, \<open>priority_str\<close> give the
  option's string.
\<close>

datatype status = Pending | In_Progress | Completed

datatype priority = High | Medium | Low

fun status_str :: "status \<Rightarrow> string" where
  "status_str Pending = ''Pending''"
| "status_str In_Progress = ''In Progress''"
| "status_str Completed = ''Completed''"

fun priority_str :: "priority \<Rightarrow> string" where
  "priority_str High = ''High''"
| "priority_str Medium = ''Medium''"
| "priority_str Low = ''Low''"

subsection \<open>The task collection\<close>

text \<open>
  The collection lives in an external MongoDB server reached through the pymongo driver;
  neither is part of the source. The state of the collection is the list of its documents
  in insertion order and the counter from which the next ObjectId is drawn. A call takes
  a \<open>fault\<close>: \<open>Some m\<close> when the driver raises (server unreachable, timeout) with
  message \<open>m\<close>, in which case the collection is not changed.
\<close>

record store =
  docs :: "doc list"
  next_id :: nat

text \<open>
  Modelled from the spec: the query matching of the store, which is missing from the
  source. A filter document \<^verbatim>\<open>{k: v, ...}\<close> selects the documents that have the
  field \<open>k\<close> with a value equal to \<open>v\<close>, for every pair of the filter. (The script
  filters on a string and on the \<^verbatim>\<open>_id\<close> of a fetched document, never on null.)
\<close>

definition field_matches :: "doc \<Rightarrow> string \<times> val \<Rightarrow> bool" where
  "field_matches t kv = (map_of t (fst kv) = Some (snd kv))"

definition matches :: "doc \<Rightarrow> doc \<Rightarrow> bool" where
  "matches flt t = list_all (field_matches t) flt"

text \<open>
  Modelled from the spec: the sort order of the store, which is missing from the source.
  Values of different BSON types are ordered by type (null and missing first, then numbers,
  strings, ObjectIds, booleans, dates) and within a type by value. The order of documents
  with equal keys is not specified by the store; the model keeps their input order.
\<close>

fun bson_key :: "val option \<Rightarrow> nat \<times> int \<times> string" where
  "bson_key None = (0, 0, [])"
| "bson_key (Some VNull) = (0, 0, [])"
| "bson_key (Some (VInt n)) = (1, n, [])"
| "bson_key (Some (VStr s)) = (2, 0, s)"
| "bson_key (Some (VId i)) = (3, int i, [])"
| "bson_key (Some (VBool b)) = (4, (if b then 1 else 0), [])"
| "bson_key (Some (VDate d)) = (5, d, [])"

fun insort_desc :: "('a \<Rightarrow> 'k::linorder) \<Rightarrow> 'a \<Rightarrow> 'a list \<Rightarrow> 'a list" where
  "insort_desc f x [] = [x]"
| "insort_desc f x (y # ys) = (if f y \<le> f x then x # y # ys else y # insort_desc f x ys)"

definition sort_desc :: "('a \<Rightarrow> 'k::linorder) \<Rightarrow> 'a list \<Rightarrow> 'a list" where
  "sort_desc f xs = foldr (insort_desc f) xs []"

definition sort_cursor :: "string \<Rightarrow> int \<Rightarrow> doc list \<Rightarrow> doc list" where
  "sort_cursor k direction ts =
     (if direction < 0 then sort_desc (\<lambda>t. bson_key (map_of t k)) ts
      else sort_key (\<lambda>t. bson_key (map_of t k)) ts)"

text \<open>
  Modelled from the spec: \<^verbatim>\<open>collection.find(flt).sort(k, direction)\<close>, read into a list,
  which is missing from the source.
\<close>

definition find_coll :: "string option \<Rightarrow> doc \<Rightarrow> string \<Rightarrow> int \<Rightarrow> store \<Rightarrow> error + doc list" where
  "find_coll fault flt k direction st =
     (case fault of
        Some m \<Rightarrow> Inl (PyMongoError m)
      | None \<Rightarrow> Inr (sort_cursor k direction (filter (matches flt) (docs st))))"

text \<open>
  Modelled from the spec: \<^verbatim>\<open>collection.insert_one(d)\<close>, which is missing from the
  source. A document without \<^verbatim>\<open>_id\<close> gets a fresh ObjectId as its first field; one that
  brings its own \<^verbatim>\<open>_id\<close> is refused when that value is taken.
\<close>

definition insert_one :: "string option \<Rightarrow> doc \<Rightarrow> store \<Rightarrow> error + store" where
  "insert_one fault d st =
     (case fault of
        Some m \<Rightarrow> Inl (PyMongoError m)
      | None \<Rightarrow>
          (case map_of d ''_id'' of
             None \<Rightarrow>
               Inr \<lparr>docs = docs st @ [(''_id'', VId (next_id st)) # d], next_id = Suc (next_id st)\<rparr>
           | Some i \<Rightarrow>
               (if list_ex (\<lambda>t. map_of t ''_id'' = Some i) (docs st) then Inl (DuplicateKeyError i)
                else Inr (st\<lparr>docs := docs st @ [d]\<rparr>))))"

text \<open>
  Modelled from the spec: \<^verbatim>\<open>collection.update_one(flt, {"$set": upd})\<close>, which is
  missing from the source. The first document that matches \<open>flt\<close> gets every field of
  \<open>upd\<close> set (an existing field in place, a new one appended); with no match nothing
  happens and nothing is raised.
\<close>

definition set_fields :: "doc \<Rightarrow> doc \<Rightarrow> doc" where
  "set_fields upd t = foldl (\<lambda>t' kv. AList.update (fst kv) (snd kv) t') t upd"

fun update_first :: "('a \<Rightarrow> bool) \<Rightarrow> ('a \<Rightarrow> 'a) \<Rightarrow> 'a list \<Rightarrow> 'a list" where
  "update_first P f [] = []"
| "update_first P f (t # ts) = (if P t then f t # ts else t # update_first P f ts)"

definition update_one :: "string option \<Rightarrow> doc \<Rightarrow> doc \<Rightarrow> store \<Rightarrow> error + store" where
  "update_one fault flt upd st =
     (case fault of
        Some m \<Rightarrow> Inl (PyMongoError m)
      | None \<Rightarrow> Inr (st\<lparr>docs := update_first (matches flt) (set_fields upd) (docs st)\<rparr>))"

text \<open>
  Modelled from the spec: \<^verbatim>\<open>collection.delete_one(flt)\<close>, which is missing from the
  source. The first document that matches \<open>flt\<close> is removed; with no match nothing
  happens and nothing is raised.
\<close>

fun remove_first :: "('a \<Rightarrow> bool) \<Rightarrow> 'a list \<Rightarrow> 'a list" where
  "remove_first P [] = []"
| "remove_first P (t # ts) = (if P t then ts else t # remove_first P ts)"

definition delete_one :: "string option \<Rightarrow> doc \<Rightarrow> store \<Rightarrow> error + store" where
  "delete_one fault flt st =
     (case fault of
        Some m \<Rightarrow> Inl (PyMongoError m)
      | None \<Rightarrow> Inr (st\<lparr>docs := remove_first (matches flt) (docs st)\<rparr>))"

subsection \<open>Widget state and output of one pass\<close>

text \<open>
  At most one button is pressed per pass: the submit button of the sidebar form (with the
  form's task name, priority and due date, a day number), or the Save or Delete button of
  one task form, identified by the \<^verbatim>\<open>_id\<close> in its key (Save with the values of the
  form's three widgets). The title widget of a task form returns the text in it; it
  returns \<^verbatim>\<open>None\<close> when it was set up with \<^verbatim>\<open>None\<close> (a stored title of null) and nothing
  was typed, so the title of a Save is an optional string.
\<close>

datatype event =
    NoEvent
  | AddTask string priority int
  | Save val "string option" status priority
  | Delete val

record inputs =
  username :: string
  event :: event
  filter_status :: "status list"
  utcnow :: int
  find_fault :: "string option"
  write_fault :: "string option"

record deadline_row =
  row_task :: val
  row_priority :: val
  row_due :: int

text \<open>
  What a pass puts on the page, in order. \<open>ErrorF p e\<close> is \<^verbatim>\<open>st.error\<close> of the
  literal \<open>p\<close> followed by the exception; \<open>ToastF p v q\<close> is \<^verbatim>\<open>st.toast\<close> of an
  f-string with the value \<open>v\<close> between \<open>p\<close> and \<open>q\<close>; icons, titles and headers are
  left out. \<open>PlotlyChart\<close> holds the series handed to \<^verbatim>\<open>value_counts\<close>; \<open>TaskForm\<close>
  holds the \<^verbatim>\<open>_id\<close> of its key, the text default and the two selectbox indices.
\<close>

datatype widget =
    Warning string
  | Info string
  | Toast string
  | ToastF string val string
  | ErrorF string error
  | Metric string int
  | PlotlyChart "val list"
  | DataFrame "deadline_row list"
  | TaskForm val val nat nat

text \<open>
  A pass ends normally, with \<^verbatim>\<open>st.rerun()\<close>, or with an uncaught exception; the
  widgets shown so far and the collection as it then is are kept in each case.
\<close>

datatype ending = Normal | Rerun | Raised error

record outcome =
  shown :: "widget list"
  ending :: ending
  final :: store

subsection \<open>Sidebar: add a new task (lines 61-88)\<close>

text \<open>\<^verbatim>\<open>datetime.combine(d, datetime.min.time())\<close>: midnight of day \<open>d\<close>.\<close>

definition datetime_combine :: "int \<Rightarrow> int" where
  "datetime_combine d = d * 86400000"

definition task_data :: "string \<Rightarrow> string \<Rightarrow> priority \<Rightarrow> int \<Rightarrow> int \<Rightarrow> doc" where
  "task_data user task_name task_priority task_due_date created =
     [(''Username'', VStr (strip user)),
      (''Task'', VStr (strip task_name)),
      (''Status'', VStr ''Pending''),
      (''Priority'', VStr (priority_str task_priority)),
      (''DueDate'', VDate (datetime_combine task_due_date)),
      (''CreatedAt'', VDate created)]"

definition sidebar :: "inputs \<Rightarrow> store \<Rightarrow> outcome" where
  "sidebar inp st =
     (if strip (username inp) \<noteq> [] then
        (case event inp of
           AddTask task_name task_priority task_due_date \<Rightarrow>
             (if strip task_name = [] then
                \<lparr>shown = [Warning ''Please enter a task name.''], ending = Normal, final = st\<rparr>
              else
                (case insert_one (write_fault inp)
                        (task_data (username inp) task_name task_priority task_due_date (utcnow inp)) st of
                   Inl e \<Rightarrow> \<lparr>shown = [], ending = Raised e, final = st\<rparr>
                 | Inr st' \<Rightarrow>
                     \<lparr>shown = [ToastF ''Task '' (VStr task_name) '' added!''],
                      ending = Normal, final = st'\<rparr>))
         | _ \<Rightarrow> \<lparr>shown = [], ending = Normal, final = st\<rparr>)
      else \<lparr>shown = [], ending = Normal, final = st\<rparr>)"

subsection \<open>Fetching the tasks of the current user (lines 97-107)\<close>

definition fetch :: "inputs \<Rightarrow> store \<Rightarrow> doc list \<times> widget list" where
  "fetch inp st =
     (if strip (username inp) \<noteq> [] then
        (case find_coll (find_fault inp) [(''Username'', VStr (strip (username inp)))]
                ''CreatedAt'' (- 1) st of
           Inl e \<Rightarrow> ([], [ErrorF ''Failed to fetch tasks: '' e])
         | Inr ts \<Rightarrow> (ts, []))
      else ([], [Info ''Please enter your name in the sidebar to load your tasks.'']))"

subsection \<open>KPI metrics (lines 109-117)\<close>

fun completed_count :: "doc list \<Rightarrow> error + int" where
  "completed_count [] = Inr 0"
| "completed_count (t # ts) =
     (case get_item t ''Status'' of
        Inl e \<Rightarrow> Inl e
      | Inr s \<Rightarrow>
          (case completed_count ts of
             Inl e \<Rightarrow> Inl e
           | Inr n \<Rightarrow> Inr ((if s = VStr ''Completed'' then 1 else 0) + n)))"

text \<open>The three counts: total, completed, pending.\<close>

definition kpi :: "doc list \<Rightarrow> error + int \<times> int \<times> int" where
  "kpi all_tasks =
     (let total_tasks = int (length all_tasks) in
      case completed_count all_tasks of
        Inl e \<Rightarrow> Inl e
      | Inr completed_tasks \<Rightarrow> Inr (total_tasks, completed_tasks, total_tasks - completed_tasks))"

definition kpi_widgets :: "int \<times> int \<times> int \<Rightarrow> widget list" where
  "kpi_widgets c =
     (case c of (total_tasks, completed_tasks, pending_tasks) \<Rightarrow>
        [Metric ''Total Tasks'' total_tasks,
         Metric ''Completed'' completed_tasks,
         Metric ''Pending'' pending_tasks])"

subsection \<open>Status distribution chart (lines 124-144)\<close>

definition chart :: "int \<Rightarrow> doc list \<Rightarrow> error + widget list" where
  "chart total_tasks all_tasks =
     (if total_tasks > 0 then
        (case traverse (\<lambda>t. get_item t ''Status'') all_tasks of
           Inl e \<Rightarrow> Inl e
         | Inr ss \<Rightarrow> Inr [PlotlyChart ss])
      else Inr [Info ''Add a task to see the status distribution chart.''])"

subsection \<open>Upcoming deadlines (lines 146-176)\<close>

text \<open>
  The rows of \<^verbatim>\<open>pending_df\<close> before the date conversion: one per task whose status is
  not Completed, with the raw due date (\<^verbatim>\<open>"N/A"\<close> when the field is missing).
\<close>

fun pending_rows :: "doc list \<Rightarrow> error + (val \<times> val \<times> val) list" where
  "pending_rows [] = Inr []"
| "pending_rows (t # ts) =
     (case get_item t ''Status'' of
        Inl e \<Rightarrow> Inl e
      | Inr s \<Rightarrow>
          (if s \<noteq> VStr ''Completed'' then
             (case get_item t ''Task'' of
                Inl e \<Rightarrow> Inl e
              | Inr title \<Rightarrow>
                  (case pending_rows ts of
                     Inl e \<Rightarrow> Inl e
                   | Inr rs \<Rightarrow>
                       Inr ((title, get_default t ''Priority'' (VStr ''Medium''),
                             get_default t ''DueDate'' (VStr ''N/A'')) # rs)))
           else pending_rows ts))"

text \<open>
  \<^verbatim>\<open>pd.to_datetime(column, errors='coerce')\<close> followed by \<^verbatim>\<open>dropna\<close>. pandas
  converts the column as a whole (the format of string cells is taken from the first of
  them), so the conversion is a parameter \<open>to_datetime\<close> of the whole column of raw due
  dates; it gives the converted column, \<open>None\<close> being NaT. Each row gets the cell at
  its position, and the rows whose cell is NaT are dropped.
\<close>

definition coerce_dropna :: "(val list \<Rightarrow> int option list) \<Rightarrow> (val \<times> val \<times> val) list \<Rightarrow> deadline_row list" where
  "coerce_dropna to_datetime rs =
     (let dates = to_datetime (map (\<lambda>r. snd (snd r)) rs)
      in List.map_filter
           (\<lambda>rc. case snd rc of
                   None \<Rightarrow> None
                 | Some d \<Rightarrow>
                     Some \<lparr>row_task = fst (fst rc), row_priority = fst (snd (fst rc)), row_due = d\<rparr>)
           (zip rs dates))"

text \<open>
  \<^verbatim>\<open>sort_values(by="DueDate")\<close>: ascending; pandas does not fix the order of rows with
  equal dates, the model keeps their input order.
\<close>

definition sort_values :: "deadline_row list \<Rightarrow> deadline_row list" where
  "sort_values rs = sort_key row_due rs"

definition upcoming :: "(val list \<Rightarrow> int option list) \<Rightarrow> string \<Rightarrow> int \<Rightarrow> doc list \<Rightarrow> error + widget list" where
  "upcoming to_datetime user pending_tasks all_tasks =
     (if strip user \<noteq> [] \<and> pending_tasks > 0 then
        (case pending_rows all_tasks of
           Inl e \<Rightarrow> Inl e
         | Inr rs \<Rightarrow> Inr [DataFrame (sort_values (coerce_dropna to_datetime rs))])
      else if strip user \<noteq> [] then Inr [Info ''No pending tasks with deadlines.'']
      else Inr [])"

subsection \<open>Editable task list (lines 184-221)\<close>

text \<open>The list comprehension of line 191.\<close>

fun filter_tasks :: "string list \<Rightarrow> doc list \<Rightarrow> error + doc list" where
  "filter_tasks sel [] = Inr []"
| "filter_tasks sel (t # ts) =
     (case get_item t ''Status'' of
        Inl e \<Rightarrow> Inl e
      | Inr s \<Rightarrow>
          (case filter_tasks sel ts of
             Inl e \<Rightarrow> Inl e
           | Inr fs \<Rightarrow> Inr (if s \<in> set (map VStr sel) then t # fs else fs)))"

text \<open>The widgets of one task form (lines 195-204), with the \<^verbatim>\<open>_id\<close> of the task.\<close>

definition task_form :: "doc \<Rightarrow> error + val \<times> widget" where
  "task_form task =
     (case get_item task ''_id'' of
        Inl e \<Rightarrow> Inl e
      | Inr task_id \<Rightarrow>
          (case get_item task ''Task'' of
             Inl e \<Rightarrow> Inl e
           | Inr title \<Rightarrow>
               (case get_item task ''Status'' of
                  Inl e \<Rightarrow> Inl e
                | Inr s \<Rightarrow>
                    (case index_of (map VStr STATUS_OPTIONS) s of
                       Inl e \<Rightarrow> Inl e
                     | Inr si \<Rightarrow>
                         (case index_of (map VStr PRIORITY_OPTIONS)
                                 (get_default task ''Priority'' (VStr ''Medium'')) of
                            Inl e \<Rightarrow> Inl e
                          | Inr pi \<Rightarrow> Inr (task_id, TaskForm task_id title si pi))))))"

text \<open>
  The Save handler (lines 207-214) and the Delete handler (lines 217-219). Line 208 calls
  \<^verbatim>\<open>strip\<close> on the title, which raises AttributeError when the widget returned
  \<^verbatim>\<open>None\<close>, before the store is called.
\<close>

definition updates :: "string option \<Rightarrow> status \<Rightarrow> priority \<Rightarrow> error + doc" where
  "updates new_task_name new_status new_priority =
     (case new_task_name of
        None \<Rightarrow> Inl (AttributeError ''strip'')
      | Some title \<Rightarrow>
          Inr [(''Task'', VStr (strip title)),
               (''Status'', VStr (status_str new_status)),
               (''Priority'', VStr (priority_str new_priority))])"

definition save_task :: "string option \<Rightarrow> val \<Rightarrow> string option \<Rightarrow> status \<Rightarrow> priority \<Rightarrow> store \<Rightarrow> error + store" where
  "save_task fault task_id new_task_name new_status new_priority st =
     (case updates new_task_name new_status new_priority of
        Inl e \<Rightarrow> Inl e
      | Inr upd \<Rightarrow> update_one fault [(''_id'', task_id)] upd st)"

definition delete_task :: "string option \<Rightarrow> val \<Rightarrow> store \<Rightarrow> error + store" where
  "delete_task fault task_id st = delete_one fault [(''_id'', task_id)] st"

text \<open>
  The loop over the filtered tasks. Each form is built first; the handler of the pressed
  button then runs inside the form whose key carries its \<^verbatim>\<open>_id\<close> and ends the pass
  with a rerun.
\<close>

fun task_rows :: "inputs \<Rightarrow> doc list \<Rightarrow> store \<Rightarrow> outcome" where
  "task_rows inp [] st = \<lparr>shown = [], ending = Normal, final = st\<rparr>"
| "task_rows inp (task # rest) st =
     (case task_form task of
        Inl e \<Rightarrow> \<lparr>shown = [], ending = Raised e, final = st\<rparr>
      | Inr (task_id, w) \<Rightarrow>
          (case event inp of
             Save i new_task_name new_status new_priority \<Rightarrow>
               (if i = task_id then
                  (case save_task (write_fault inp) task_id new_task_name new_status new_priority st of
                     Inl e \<Rightarrow> \<lparr>shown = [w], ending = Raised e, final = st\<rparr>
                   | Inr st' \<Rightarrow> \<lparr>shown = [w, Toast ''Task updated!''], ending = Rerun, final = st'\<rparr>)
                else
                  (let r = task_rows inp rest st in r\<lparr>shown := w # shown r\<rparr>))
           | Delete i \<Rightarrow>
               (if i = task_id then
                  (case delete_task (write_fault inp) task_id st of
                     Inl e \<Rightarrow> \<lparr>shown = [w], ending = Raised e, final = st\<rparr>
                   | Inr st' \<Rightarrow>
                       (case get_item task ''Task'' of
                          Inl e \<Rightarrow> \<lparr>shown = [w], ending = Raised e, final = st'\<rparr>
                        | Inr title \<Rightarrow>
                            \<lparr>shown = [w, ToastF ''Task '' title '' deleted.''],
                             ending = Rerun, final = st'\<rparr>))
                else
                  (let r = task_rows inp rest st in r\<lparr>shown := w # shown r\<rparr>))
           | _ \<Rightarrow> (let r = task_rows inp rest st in r\<lparr>shown := w # shown r\<rparr>)))"

definition manage :: "inputs \<Rightarrow> doc list \<Rightarrow> store \<Rightarrow> outcome" where
  "manage inp all_tasks st =
     (if all_tasks \<noteq> [] then
        (case filter_tasks (map status_str (filter_status inp)) all_tasks of
           Inl e \<Rightarrow> \<lparr>shown = [], ending = Raised e, final = st\<rparr>
         | Inr filtered_tasks \<Rightarrow> task_rows inp filtered_tasks st)
      else
        \<lparr>shown = [Info ''No tasks found. Add your first task from the sidebar!''],
         ending = Normal, final = st\<rparr>)"

subsection \<open>The whole pass\<close>

text \<open>The main page after the sidebar: everything from the fetch on, on the fetched list.\<close>

definition main_page :: "(val list \<Rightarrow> int option list) \<Rightarrow> inputs \<Rightarrow> doc list \<Rightarrow> store \<Rightarrow> outcome" where
  "main_page to_datetime inp all_tasks st =
     (case kpi all_tasks of
        Inl e \<Rightarrow> \<lparr>shown = [], ending = Raised e, final = st\<rparr>
      | Inr c \<Rightarrow>
          (case chart (fst c) all_tasks of
             Inl e \<Rightarrow> \<lparr>shown = kpi_widgets c, ending = Raised e, final = st\<rparr>
           | Inr w2 \<Rightarrow>
               (case upcoming to_datetime (username inp) (snd (snd c)) all_tasks of
                  Inl e \<Rightarrow> \<lparr>shown = kpi_widgets c @ w2, ending = Raised e, final = st\<rparr>
                | Inr w3 \<Rightarrow>
                    (let m = manage inp all_tasks st
                     in m\<lparr>shown := kpi_widgets c @ w2 @ w3 @ shown m\<rparr>))))"

definition script :: "(val list \<Rightarrow> int option list) \<Rightarrow> inputs \<Rightarrow> store \<Rightarrow> outcome" where
  "script to_datetime inp st =
     (let sb = sidebar inp st in
      case ending sb of
        Normal \<Rightarrow>
          (case fetch inp (final sb) of
             (all_tasks, w1) \<Rightarrow>
               (let r = main_page to_datetime inp all_tasks (final sb)
                in r\<lparr>shown := shown sb @ w1 @ shown r\<rparr>))
      | _ \<Rightarrow> sb)"

subsection \<open>Example data\<close>

text \<open>A collection with two tasks of Alex and one of Bob, and a pass of Alex without any button pressed.\<close>

definition alex_doc :: doc where
  "alex_doc =
     [(''_id'', VId 0), (''Username'', VStr ''Alex''), (''Task'', VStr ''Write report''),
      (''Status'', VStr ''Pending''), (''Priority'', VStr ''High''),
      (''DueDate'', VDate 100), (''CreatedAt'', VDate 5)]"

definition bob_doc :: doc where
  "bob_doc =
     [(''_id'', VId 1), (''Username'', VStr ''Bob''), (''Task'', VStr ''Shop''),
      (''Status'', VStr ''Completed''), (''Priority'', VStr ''Low''),
      (''DueDate'', VDate 50), (''CreatedAt'', VDate 7)]"

definition alex_doc2 :: doc where
  "alex_doc2 =
     [(''_id'', VId 2), (''Username'', VStr ''Alex''), (''Task'', VStr ''Call client''),
      (''Status'', VStr ''In Progress''), (''Priority'', VStr ''Medium''),
      (''DueDate'', VDate 70), (''CreatedAt'', VDate 8)]"

definition ex_store :: store where
  "ex_store = \<lparr>docs = [alex_doc, bob_doc, alex_doc2], next_id = 3\<rparr>"

definition ex_inputs :: inputs where
  "ex_inputs =
     \<lparr>username = '' Alex '', event = NoEvent, filter_status = [Pending, In_Progress, Completed],
      utcnow = 9, find_fault = None, write_fault = None\<rparr>"

definition carol_inputs :: inputs where
  "carol_inputs = ex_inputs\<lparr>username := ''Carol''\<rparr>"

text \<open>
  A stand-in for the pandas conversion: in every column BSON dates convert and all other
  cells are NaT.
\<close>

definition ex_to_datetime :: "val list \<Rightarrow> int option list" where
  "ex_to_datetime col = map (\<lambda>v. case v of VDate d \<Rightarrow> Some d | _ \<Rightarrow> None) col"

text \<open>
  Two submissions of the sidebar form: one with a blank task name (while the store is
  unreachable), one for ``Write report'', priority High, due 2024-06-01 (day 19875).
\<close>

definition blank_add_inputs :: inputs where
  "blank_add_inputs = ex_inputs\<lparr>event := AddTask ''  '' Medium 3, write_fault := Some ''down''\<rparr>"

definition add_inputs :: inputs where
  "add_inputs = ex_inputs\<lparr>event := AddTask '' Write report'' High 19875\<rparr>"

definition new_doc :: doc where
  "new_doc =
     [(''_id'', VId 3), (''Username'', VStr ''Alex''), (''Task'', VStr ''Write report''),
      (''Status'', VStr ''Pending''), (''Priority'', VStr ''High''),
      (''DueDate'', VDate 1717200000000), (''CreatedAt'', VDate 9)]"

text \<open>
  Two presses of the Save button in the form of Alex's first task: one with new values in
  all three widgets, one with a title of two spaces.
\<close>

definition save_inputs :: inputs where
  "save_inputs = ex_inputs\<lparr>event := Save (VId 0) (Some '' Final report '') Completed Low\<rparr>"

definition saved_doc :: doc where
  "saved_doc =
     [(''_id'', VId 0), (''Username'', VStr ''Alex''), (''Task'', VStr ''Final report''),
      (''Status'', VStr ''Completed''), (''Priority'', VStr ''Low''),
      (''DueDate'', VDate 100), (''CreatedAt'', VDate 5)]"

definition blank_save_inputs :: inputs where
  "blank_save_inputs = ex_inputs\<lparr>event := Save (VId 0) (Some ''  '') Pending High\<rparr>"

definition blank_doc :: doc where
  "blank_doc =
     [(''_id'', VId 0), (''Username'', VStr ''Alex''), (''Task'', VStr ''''),
      (''Status'', VStr ''Pending''), (''Priority'', VStr ''High''),
      (''DueDate'', VDate 100), (''CreatedAt'', VDate 5)]"

text \<open>A pass of Alex in which the listing query fails.\<close>

definition down_inputs :: inputs where
  "down_inputs = ex_inputs\<lparr>find_fault := Some ''timed out''\<rparr>"

text \<open>
  Documents that the script itself never writes: one without a status, one with a status
  outside the option list (and without priority and due date), one without a priority;
  and a completed task.
\<close>

definition nostatus_doc :: doc where
  "nostatus_doc =
     [(''_id'', VId 4), (''Username'', VStr ''Alex''), (''Task'', VStr ''Lost''),
      (''CreatedAt'', VDate 1)]"

definition blocked_doc :: doc where
  "blocked_doc =
     [(''_id'', VId 5), (''Username'', VStr ''Alex''), (''Task'', VStr ''Wait''),
      (''Status'', VStr ''Blocked''), (''CreatedAt'', VDate 3)]"

definition blocked_store :: store where
  "blocked_store = \<lparr>docs = [blocked_doc], next_id = 6\<rparr>"

definition noprio_doc :: doc where
  "noprio_doc =
     [(''_id'', VId 6), (''Username'', VStr ''Alex''), (''Task'', VStr ''Plan''),
      (''Status'', VStr ''Pending''), (''CreatedAt'', VDate 2)]"

definition done_doc :: doc where
  "done_doc =
     [(''_id'', VId 7), (''Username'', VStr ''Alex''), (''Task'', VStr ''Archive''),
      (''Status'', VStr ''Completed''), (''Priority'', VStr ''Low''),
      (''DueDate'', VDate 10), (''CreatedAt'', VDate 4)]"

text \<open>
  A task whose stored title is null, and a press of Save in its form while the title
  widget still holds \<^verbatim>\<open>None\<close>; a pending task without a title.
\<close>

definition null_doc :: doc where
  "null_doc =
     [(''_id'', VId 8), (''Username'', VStr ''Alex''), (''Task'', VNull),
      (''Status'', VStr ''Pending''), (''Priority'', VStr ''Medium''),
      (''DueDate'', VDate 30), (''CreatedAt'', VDate 6)]"

definition null_save_inputs :: inputs where
  "null_save_inputs = ex_inputs\<lparr>event := Save (VId 8) None Pending Medium\<rparr>"

definition notitle_doc :: doc where
  "notitle_doc =
     [(''_id'', VId 9), (''Username'', VStr ''Alex''),
      (''Status'', VStr ''Pending''), (''Priority'', VStr ''Low''),
      (''DueDate'', VDate 20), (''CreatedAt'', VDate 10)]"

text \<open>
  A second stand-in, which like pandas reads the string cells of a column in the format
  of the first of them: it knows one date written year first and one written month
  first, and a string cell converts only when it is written like the first string cell
  of its column. Two pending tasks with such due dates.
\<close>

fun first_string :: "val list \<Rightarrow> string option" where
  "first_string [] = None"
| "first_string (VStr s # col) = Some s"
| "first_string (v # col) = first_string col"

definition fmt_to_datetime :: "val list \<Rightarrow> int option list" where
  "fmt_to_datetime col =
     map (\<lambda>v. case v of
                VDate d \<Rightarrow> Some d
              | VStr s \<Rightarrow>
                  (if first_string col = Some ''2024-06-02'' \<and> s = ''2024-06-02''
                   then Some 1717286400000
                   else if first_string col = Some ''06/01/2024'' \<and> s = ''06/01/2024''
                   then Some 1717200000000
                   else None)
              | _ \<Rightarrow> None) col"

definition iso_doc :: doc where
  "iso_doc =
     [(''_id'', VId 10), (''Username'', VStr ''Alex''), (''Task'', VStr ''Book venue''),
      (''Status'', VStr ''Pending''), (''Priority'', VStr ''High''),
      (''DueDate'', VStr ''2024-06-02''), (''CreatedAt'', VDate 11)]"

definition us_doc :: doc where
  "us_doc =
     [(''_id'', VId 11), (''Username'', VStr ''Alex''), (''Task'', VStr ''Send invites''),
      (''Status'', VStr ''Pending''), (''Priority'', VStr ''Low''),
      (''DueDate'', VStr ''06/01/2024''), (''CreatedAt'', VDate 12)]"

subsection \<open>The upcoming-deadlines table in the words of the specification\<close>

text \<open>
  The rows the specification gives a task list: of the tasks whose status is not
  Completed, in their order, those that have a due date which the conversion turns into
  a date, each with its title, its priority (Medium when it has none) and the converted
  due date. The conversion is applied to the column of the due dates of these tasks (a
  missing one standing in it as \<^verbatim>\<open>"N/A"\<close>, as in the script), and a task is judged
  by the cell at its position. The table of the script is compared with these rows below.
\<close>

definition spec_deadlines :: "(val list \<Rightarrow> int option list) \<Rightarrow> doc list \<Rightarrow> deadline_row list" where
  "spec_deadlines to_datetime all_tasks =
     (let pending = filter (\<lambda>t. map_of t ''Status'' \<noteq> Some (VStr ''Completed'')) all_tasks;
          dates = to_datetime (map (\<lambda>t. get_default t ''DueDate'' (VStr ''N/A'')) pending)
      in List.map_filter
           (\<lambda>i. case map_of (pending ! i) ''DueDate'' of
                   None \<Rightarrow> None
                 | Some due \<Rightarrow>
                     (case dates ! i of
                        None \<Rightarrow> None
                      | Some d \<Rightarrow>
                          (case map_of (pending ! i) ''Task'' of
                             None \<Rightarrow> None
                           | Some title \<Rightarrow>
                               Some \<lparr>row_task = title,
                                     row_priority = get_default (pending ! i) ''Priority'' (VStr ''Medium''),
                                     row_due = d\<rparr>)))
           [0..<length pending])"

section \<open>Properties\<close>

subsection \<open>Auxiliary facts\<close>

lemma strip_empty_iff: "strip s = [] \<longleftrightarrow> (\<forall>c\<in>set s. is_space c)"
proof
  assume "strip s = []"
  then have all: "\<forall>x\<in>set (dropWhile is_space s). is_space x"
    by (simp add: strip_def dropWhile_eq_Nil_conv)
  have "dropWhile is_space s = []"
  proof (rule ccontr)
    assume ne: "dropWhile is_space s \<noteq> []"
    then have "\<not> is_space (hd (dropWhile is_space s))" by (rule hd_dropWhile)
    moreover from ne have "hd (dropWhile is_space s) \<in> set (dropWhile is_space s)" by simp
    ultimately show False using all by blast
  qed
  then show "\<forall>c\<in>set s. is_space c" by (simp add: dropWhile_eq_Nil_conv)
next
  assume "\<forall>c\<in>set s. is_space c"
  then show "strip s = []" by (auto simp: strip_def dest: set_dropWhileD)
qed

lemma strip_Alex: "strip '' Alex '' = ''Alex''"
  by (simp add: strip_def is_space_def whitespace_def)

lemma matches_single: "matches [(k, v)] t \<longleftrightarrow> map_of t k = Some v"
  by (simp add: matches_def field_matches_def)

lemma set_insort_desc: "set (insort_desc f x xs) = insert x (set xs)"
  by (induction xs) auto

lemma mset_insort_desc: "mset (insort_desc f x xs) = add_mset x (mset xs)"
  by (induction xs) auto

lemma mset_sort_desc: "mset (sort_desc f xs) = mset xs"
  by (induction xs) (simp_all add: sort_desc_def mset_insort_desc)

lemma set_sort_desc: "set (sort_desc f xs) = set xs"
  by (induction xs) (simp_all add: sort_desc_def set_insort_desc)

lemma sorted_insort_desc:
  "sorted_wrt (\<lambda>a b. f b \<le> f a) xs \<Longrightarrow> sorted_wrt (\<lambda>a b. f b \<le> f a) (insort_desc f x xs)"
  by (induction xs) (auto simp: set_insort_desc)

lemma sorted_sort_desc: "sorted_wrt (\<lambda>a b. f b \<le> f a) (sort_desc f xs)"
  by (induction xs) (simp_all add: sort_desc_def sorted_insort_desc)

lemma fetch_cases:
  "fetch inp st = (all_tasks, ws) \<Longrightarrow>
     all_tasks = [] \<or>
     (strip (username inp) \<noteq> [] \<and> find_fault inp = None \<and>
      all_tasks = sort_desc (\<lambda>t. bson_key (map_of t ''CreatedAt''))
                    (filter (matches [(''Username'', VStr (strip (username inp)))]) (docs st)))"
  by (auto simp: fetch_def find_coll_def sort_cursor_def split: if_splits option.splits)

lemma fetch_ok:
  assumes "strip (username inp) \<noteq> []" and "find_fault inp = None"
  shows "fetch inp st =
           (sort_desc (\<lambda>t. bson_key (map_of t ''CreatedAt''))
              (filter (\<lambda>t. map_of t ''Username'' = Some (VStr (strip (username inp)))) (docs st)), [])"
proof -
  have "matches [(''Username'', VStr (strip (username inp)))] =
          (\<lambda>t. map_of t ''Username'' = Some (VStr (strip (username inp))))"
    by (simp add: matches_single fun_eq_iff)
  with assms show ?thesis
    by (simp add: fetch_def find_coll_def sort_cursor_def)
qed

lemma fetch_example: "fetch ex_inputs ex_store = ([alex_doc2, alex_doc], [])"
  by (simp add: fetch_def ex_inputs_def ex_store_def strip_Alex find_coll_def sort_cursor_def
      sort_desc_def matches_def field_matches_def alex_doc_def bob_doc_def alex_doc2_def)

subsection \<open>The listing shows only the current user's tasks\<close>

text \<open>
  C1. For every owner, the listing of lines 97-103 returns only documents of the
  collection whose \<^verbatim>\<open>Username\<close> field equals the stripped name that was entered; a
  document of any other owner never appears in \<open>all_tasks\<close>.
\<close>

theorem fetch_only_owner:
  assumes "fetch inp st = (all_tasks, ws)" and "t \<in> set all_tasks"
  shows "map_of t ''Username'' = Some (VStr (strip (username inp))) \<and> t \<in> set (docs st)"
proof -
  from fetch_cases [OF assms(1)] assms(2)
  have "t \<in> set (filter (matches [(''Username'', VStr (strip (username inp)))]) (docs st))"
    by (auto simp: set_sort_desc)
  then show ?thesis
    by (simp add: matches_single)
qed

theorem fetch_only_owner_witness:
  "fetch ex_inputs ex_store = ([alex_doc2, alex_doc], []) \<and> alex_doc \<in> set [alex_doc2, alex_doc] \<and>
   map_of alex_doc ''Username'' = Some (VStr (strip (username ex_inputs))) \<and>
   alex_doc \<in> set (docs ex_store)"
proof -
  have h2: "alex_doc \<in> set [alex_doc2, alex_doc]" by simp
  from fetch_only_owner [OF fetch_example h2] fetch_example h2 show ?thesis by simp
qed

lemma desc_dates:
  assumes "sorted_wrt (\<lambda>a b. bson_key (map_of b ''CreatedAt'') \<le> bson_key (map_of a ''CreatedAt'')) ts"
      and "i < j" and "j < length ts"
      and "map_of (ts ! i) ''CreatedAt'' = Some (VDate a)"
      and "map_of (ts ! j) ''CreatedAt'' = Some (VDate b)"
  shows "b \<le> a"
proof -
  from assms(1-3)
  have "bson_key (map_of (ts ! j) ''CreatedAt'') \<le> bson_key (map_of (ts ! i) ''CreatedAt'')"
    by (simp add: sorted_wrt_iff_nth_less)
  with assms(4,5) show ?thesis by auto
qed

subsection \<open>The listing is ordered by creation time, newest first\<close>

text \<open>
  C6. When the listing query does not fail, \<open>all_tasks\<close> holds exactly the documents of
  the current user (as a multiset), ordered by \<^verbatim>\<open>CreatedAt\<close> descending in the store's
  order of values, so that of two listed documents with creation dates the earlier listed
  one has the later or the same date; no error is shown, and for a user without documents
  the list is empty.
\<close>

theorem fetch_created_desc:
  assumes "strip (username inp) \<noteq> []" and "find_fault inp = None"
  shows "\<exists>ts. fetch inp st = (ts, []) \<and>
           sorted_wrt (\<lambda>a b. bson_key (map_of b ''CreatedAt'') \<le> bson_key (map_of a ''CreatedAt'')) ts \<and>
           (\<forall>i j a b. i < j \<and> j < length ts \<and> map_of (ts ! i) ''CreatedAt'' = Some (VDate a) \<and>
                      map_of (ts ! j) ''CreatedAt'' = Some (VDate b) \<longrightarrow> b \<le> a) \<and>
           mset ts = mset (filter (\<lambda>t. map_of t ''Username'' = Some (VStr (strip (username inp)))) (docs st)) \<and>
           ((\<forall>t\<in>set (docs st). map_of t ''Username'' \<noteq> Some (VStr (strip (username inp)))) \<longrightarrow> ts = [])"
proof -
  let ?o = "strip (username inp)"
  define ts where "ts = sort_desc (\<lambda>t. bson_key (map_of t ''CreatedAt''))
               (filter (\<lambda>t. map_of t ''Username'' = Some (VStr ?o)) (docs st))"
  have f: "fetch inp st = (ts, [])"
    unfolding ts_def using assms by (rule fetch_ok)
  have s: "sorted_wrt (\<lambda>a b. bson_key (map_of b ''CreatedAt'') \<le> bson_key (map_of a ''CreatedAt'')) ts"
    unfolding ts_def by (rule sorted_sort_desc)
  have d: "\<forall>i j a b. i < j \<and> j < length ts \<and> map_of (ts ! i) ''CreatedAt'' = Some (VDate a) \<and>
                      map_of (ts ! j) ''CreatedAt'' = Some (VDate b) \<longrightarrow> b \<le> a"
    using desc_dates [OF s] by blast
  have m: "mset ts = mset (filter (\<lambda>t. map_of t ''Username'' = Some (VStr ?o)) (docs st))"
    unfolding ts_def by (rule mset_sort_desc)
  have e: "(\<forall>t\<in>set (docs st). map_of t ''Username'' \<noteq> Some (VStr ?o)) \<longrightarrow> ts = []"
    by (simp add: ts_def sort_desc_def filter_empty_conv [THEN iffD2])
  from f s d m e show ?thesis by blast
qed

theorem fetch_created_desc_witness:
  "strip (username ex_inputs) \<noteq> [] \<and> find_fault ex_inputs = None \<and>
   fetch ex_inputs ex_store = ([alex_doc2, alex_doc], []) \<and>
   sorted_wrt (\<lambda>a b. bson_key (map_of b ''CreatedAt'') \<le> bson_key (map_of a ''CreatedAt''))
     [alex_doc2, alex_doc] \<and>
   map_of alex_doc2 ''CreatedAt'' = Some (VDate 8) \<and> map_of alex_doc ''CreatedAt'' = Some (VDate 5) \<and>
   strip (username carol_inputs) \<noteq> [] \<and> find_fault carol_inputs = None \<and>
   fetch carol_inputs ex_store = ([], [])"
proof -
  have h1: "strip (username ex_inputs) \<noteq> []" by (simp add: ex_inputs_def strip_Alex)
  have h2: "find_fault ex_inputs = None" by (simp add: ex_inputs_def)
  have c0: "strip ''Carol'' = ''Carol''" by (simp add: strip_def is_space_def whitespace_def)
  have h3: "strip (username carol_inputs) \<noteq> []" by (simp add: carol_inputs_def c0)
  have h4: "find_fault carol_inputs = None" by (simp add: carol_inputs_def ex_inputs_def)
  from fetch_created_desc [OF h1 h2, of ex_store] fetch_example
  have a: "sorted_wrt (\<lambda>a b. bson_key (map_of b ''CreatedAt'') \<le> bson_key (map_of a ''CreatedAt''))
             [alex_doc2, alex_doc]"
    by auto
  have none: "\<forall>t\<in>set (docs ex_store). map_of t ''Username'' \<noteq> Some (VStr (strip (username carol_inputs)))"
    by (simp add: ex_store_def carol_inputs_def c0 alex_doc_def bob_doc_def alex_doc2_def)
  from fetch_created_desc [OF h3 h4, of ex_store] none
  have b: "fetch carol_inputs ex_store = ([], [])"
    by auto
  have c: "map_of alex_doc2 ''CreatedAt'' = Some (VDate 8) \<and> map_of alex_doc ''CreatedAt'' = Some (VDate 5)"
    by (simp add: alex_doc_def alex_doc2_def)
  from h1 h2 h3 h4 a b c fetch_example show ?thesis by simp
qed

subsection \<open>Auxiliary facts about the write commands\<close>

lemma update_first_none: "\<forall>x\<in>set xs. \<not> P x \<Longrightarrow> update_first P f xs = xs"
  by (induction xs) auto

lemma remove_first_none: "\<forall>x\<in>set xs. \<not> P x \<Longrightarrow> remove_first P xs = xs"
  by (induction xs) auto

subsection \<open>Saving or deleting a task that is no longer stored\<close>

text \<open>
  C7. When the \<^verbatim>\<open>_id\<close> of the Save or Delete handler identifies no document of the
  collection, the update and the delete both return without an exception and the
  collection is unchanged.
\<close>

theorem missing_id_noop:
  assumes "\<forall>t\<in>set (docs st). map_of t ''_id'' \<noteq> Some i"
  shows "save_task None i (Some new_task_name) new_status new_priority st = Inr st \<and>
         delete_task None i st = Inr st"
proof -
  from assms have "\<forall>t\<in>set (docs st). \<not> matches [(''_id'', i)] t"
    by (simp add: matches_single)
  then show ?thesis
    by (simp add: save_task_def updates_def delete_task_def update_one_def delete_one_def
        update_first_none remove_first_none)
qed

theorem missing_id_noop_witness:
  "map_of alex_doc ''_id'' \<noteq> Some (VId 7) \<and> map_of bob_doc ''_id'' \<noteq> Some (VId 7) \<and>
   map_of alex_doc2 ''_id'' \<noteq> Some (VId 7) \<and>
   save_task None (VId 7) (Some ''x'') Completed Low ex_store = Inr ex_store \<and>
   delete_task None (VId 7) ex_store = Inr ex_store"
proof -
  have h: "\<forall>t\<in>set (docs ex_store). map_of t ''_id'' \<noteq> Some (VId 7)"
    by (simp add: ex_store_def alex_doc_def bob_doc_def alex_doc2_def)
  from missing_id_noop [OF h, of "''x''" Completed Low] h show ?thesis
    by (simp add: ex_store_def)
qed

subsection \<open>Auxiliary facts about a pass without a pressed Save or Delete button\<close>

lemma task_rows_final_other:
  assumes "\<And>i n s p. event inp \<noteq> Save i n s p" and "\<And>i. event inp \<noteq> Delete i"
  shows "final (task_rows inp ts st) = st"
  using assms
  by (induction ts) (auto simp: Let_def split: sum.splits event.splits prod.splits)

lemma manage_final_other:
  assumes "\<And>i n s p. event inp \<noteq> Save i n s p" and "\<And>i. event inp \<noteq> Delete i"
  shows "final (manage inp ts st) = st"
  using assms by (simp add: manage_def task_rows_final_other split: sum.splits)

lemma main_page_final_other:
  assumes "\<And>i n s p. event inp \<noteq> Save i n s p" and "\<And>i. event inp \<noteq> Delete i"
  shows "final (main_page to_datetime inp ts st) = st"
  using assms by (simp add: main_page_def manage_final_other Let_def split: sum.splits)

subsection \<open>A blank task name is rejected\<close>

text \<open>
  C4. A submission of the sidebar form whose task name is empty or whitespace only shows
  the warning and leaves the collection as it was, whatever the store would have answered
  (\<open>write_fault\<close> is arbitrary: no command is issued); this holds for the sidebar and for
  the whole pass.
\<close>

theorem blank_title_rejected:
  assumes "event inp = AddTask task_name task_priority task_due_date"
      and "\<forall>c\<in>set task_name. is_space c"
      and "strip (username inp) \<noteq> []"
  shows "sidebar inp st = \<lparr>shown = [Warning ''Please enter a task name.''], ending = Normal, final = st\<rparr> \<and>
         final (script to_datetime inp st) = st \<and>
         Warning ''Please enter a task name.'' \<in> set (shown (script to_datetime inp st))"
proof -
  from assms(2) have e: "strip task_name = []" by (simp add: strip_empty_iff)
  with assms have sb: "sidebar inp st = \<lparr>shown = [Warning ''Please enter a task name.''], ending = Normal, final = st\<rparr>"
    by (simp add: sidebar_def)
  have ev: "\<And>i n s p. event inp \<noteq> Save i n s p" "\<And>i. event inp \<noteq> Delete i"
    using assms(1) by simp_all
  have "final (script to_datetime inp st) = st"
    by (simp add: script_def sb Let_def main_page_final_other [OF ev] split: prod.splits)
  moreover have "Warning ''Please enter a task name.'' \<in> set (shown (script to_datetime inp st))"
    by (simp add: script_def sb Let_def split: prod.splits)
  ultimately show ?thesis using sb by simp
qed

theorem blank_title_rejected_witness:
  "event blank_add_inputs = AddTask ''  '' Medium 3 \<and> strip ''  '' = [] \<and>
   strip (username blank_add_inputs) \<noteq> [] \<and>
   sidebar blank_add_inputs ex_store =
     \<lparr>shown = [Warning ''Please enter a task name.''], ending = Normal, final = ex_store\<rparr> \<and>
   final (script ex_to_datetime blank_add_inputs ex_store) = ex_store"
proof -
  have h1: "event blank_add_inputs = AddTask ''  '' Medium 3"
    by (simp add: blank_add_inputs_def ex_inputs_def)
  have h2: "\<forall>c\<in>set ''  ''. is_space c"
    by (simp add: is_space_def whitespace_def)
  have h3: "strip (username blank_add_inputs) \<noteq> []"
    by (simp add: blank_add_inputs_def ex_inputs_def strip_Alex)
  from blank_title_rejected [OF h1 h2 h3, of ex_store ex_to_datetime] h1 h2 h3
  show ?thesis by (simp add: strip_empty_iff)
qed

subsection \<open>Auxiliary facts about the newest task and the sidebar\<close>

lemma foldr_insort_desc_max:
  "\<forall>x\<in>set xs. f x < f n \<Longrightarrow>
     foldr (insort_desc f) xs (n # acc) = n # foldr (insort_desc f) xs acc"
  by (induction xs) auto

lemma sort_desc_snoc_max:
  "\<forall>x\<in>set xs. f x < f n \<Longrightarrow> sort_desc f (xs @ [n]) = n # sort_desc f xs"
  by (simp add: sort_desc_def foldr_insort_desc_max)

lemma sidebar_add:
  assumes "event inp = AddTask task_name task_priority task_due_date"
      and "strip task_name \<noteq> []" and "strip (username inp) \<noteq> []" and "write_fault inp = None"
  shows "sidebar inp st =
           \<lparr>shown = [ToastF ''Task '' (VStr task_name) '' added!''], ending = Normal,
            final = \<lparr>docs = docs st @ [(''_id'', VId (next_id st)) #
                        task_data (username inp) task_name task_priority task_due_date (utcnow inp)],
                     next_id = Suc (next_id st)\<rparr>\<rparr>"
  using assms by (simp add: sidebar_def insert_one_def task_data_def)

subsection \<open>A valid submission inserts one Pending task\<close>

text \<open>
  C5. A submission of the sidebar form with a non-blank task name, by a non-blank user and
  with the store answering, appends exactly one document to the collection, written out
  below. Its status is Pending, its priority is the string of the selected option, its
  due date is midnight of the submitted day (the day number times the 86400000
  milliseconds of a day) and its owner is the stripped user name; when its creation time
  is later than that of every other task of the user, it is the first element of the
  listing.
\<close>

theorem add_task_inserts:
  assumes "event inp = AddTask task_name task_priority task_due_date"
      and "strip task_name \<noteq> []" and "strip (username inp) \<noteq> []" and "write_fault inp = None"
  shows "let new = [(''_id'', VId (next_id st)),
                    (''Username'', VStr (strip (username inp))),
                    (''Task'', VStr (strip task_name)),
                    (''Status'', VStr ''Pending''),
                    (''Priority'', VStr (case task_priority of
                                           High \<Rightarrow> ''High'' | Medium \<Rightarrow> ''Medium'' | Low \<Rightarrow> ''Low'')),
                    (''DueDate'', VDate (task_due_date * 86400000)),
                    (''CreatedAt'', VDate (utcnow inp))];
             st' = final (sidebar inp st)
         in ending (sidebar inp st) = Normal \<and> docs st' = docs st @ [new] \<and>
            map_of new ''Status'' = Some (VStr ''Pending'') \<and>
            map_of new ''Priority'' =
              Some (VStr (case task_priority of
                            High \<Rightarrow> ''High'' | Medium \<Rightarrow> ''Medium'' | Low \<Rightarrow> ''Low'')) \<and>
            map_of new ''DueDate'' = Some (VDate (task_due_date * 86400000)) \<and>
            map_of new ''Username'' = Some (VStr (strip (username inp))) \<and>
            (find_fault inp = None \<and>
             (\<forall>t\<in>set (docs st). map_of t ''Username'' = Some (VStr (strip (username inp))) \<longrightarrow>
                  bson_key (map_of t ''CreatedAt'') < bson_key (Some (VDate (utcnow inp))))
             \<longrightarrow> (\<exists>rest. fetch inp st' = (new # rest, [])))"
proof -
  define new where "new = [(''_id'', VId (next_id st)),
                    (''Username'', VStr (strip (username inp))),
                    (''Task'', VStr (strip task_name)),
                    (''Status'', VStr ''Pending''),
                    (''Priority'', VStr (case task_priority of
                                           High \<Rightarrow> ''High'' | Medium \<Rightarrow> ''Medium'' | Low \<Rightarrow> ''Low'')),
                    (''DueDate'', VDate (task_due_date * 86400000)),
                    (''CreatedAt'', VDate (utcnow inp))]"
  define st' where "st' = final (sidebar inp st)"
  have p: "priority_str task_priority =
             (case task_priority of High \<Rightarrow> ''High'' | Medium \<Rightarrow> ''Medium'' | Low \<Rightarrow> ''Low'')"
    by (cases task_priority) simp_all
  have n: "(''_id'', VId (next_id st)) #
             task_data (username inp) task_name task_priority task_due_date (utcnow inp) = new"
    by (simp add: new_def task_data_def datetime_combine_def p)
  have sb: "ending (sidebar inp st) = Normal" "docs st' = docs st @ [new]"
    by (simp_all add: sidebar_add [OF assms] st'_def n)
  have fields: "map_of new ''Status'' = Some (VStr ''Pending'')"
      "map_of new ''Priority'' =
         Some (VStr (case task_priority of
                       High \<Rightarrow> ''High'' | Medium \<Rightarrow> ''Medium'' | Low \<Rightarrow> ''Low''))"
      "map_of new ''DueDate'' = Some (VDate (task_due_date * 86400000))"
      "map_of new ''Username'' = Some (VStr (strip (username inp)))"
      "map_of new ''CreatedAt'' = Some (VDate (utcnow inp))"
    by (simp_all add: new_def)
  have first: "\<exists>rest. fetch inp st' = (new # rest, [])"
    if ok: "find_fault inp = None"
      and recent: "\<forall>t\<in>set (docs st). map_of t ''Username'' = Some (VStr (strip (username inp))) \<longrightarrow>
                  bson_key (map_of t ''CreatedAt'') < bson_key (Some (VDate (utcnow inp)))"
  proof -
    let ?own = "\<lambda>t. map_of t ''Username'' = Some (VStr (strip (username inp)))"
    let ?key = "\<lambda>t. bson_key (map_of t ''CreatedAt'')"
    have "filter ?own (docs st') = filter ?own (docs st) @ [new]"
      by (simp add: sb fields)
    moreover have "\<forall>t\<in>set (filter ?own (docs st)). ?key t < ?key new"
      using recent by (simp add: fields)
    ultimately have "sort_desc ?key (filter ?own (docs st')) = new # sort_desc ?key (filter ?own (docs st))"
      by (simp add: sort_desc_snoc_max)
    with fetch_ok [OF assms(3) ok, of st'] show ?thesis by simp
  qed
  from sb fields first show ?thesis
    unfolding Let_def new_def [symmetric] st'_def [symmetric] by blast
qed

lemma strip_Write: "strip '' Write report'' = ''Write report''"
  by (simp add: strip_def is_space_def whitespace_def)

theorem add_task_inserts_witness:
  "event add_inputs = AddTask '' Write report'' High 19875 \<and> strip '' Write report'' \<noteq> [] \<and>
   strip (username add_inputs) \<noteq> [] \<and> write_fault add_inputs = None \<and> find_fault add_inputs = None \<and>
   docs (final (sidebar add_inputs ex_store)) = [alex_doc, bob_doc, alex_doc2, new_doc] \<and>
   fetch add_inputs (final (sidebar add_inputs ex_store)) = ([new_doc, alex_doc2, alex_doc], [])"
proof -
  have h1: "event add_inputs = AddTask '' Write report'' High 19875"
    by (simp add: add_inputs_def ex_inputs_def)
  have h2: "strip '' Write report'' \<noteq> []" by (simp add: strip_Write)
  have h3: "strip (username add_inputs) \<noteq> []" by (simp add: add_inputs_def ex_inputs_def strip_Alex)
  have h4: "write_fault add_inputs = None" by (simp add: add_inputs_def ex_inputs_def)
  have h5: "find_fault add_inputs = None" by (simp add: add_inputs_def ex_inputs_def)
  have new: "[(''_id'', VId (next_id ex_store)),
              (''Username'', VStr (strip (username add_inputs))),
              (''Task'', VStr (strip '' Write report'')),
              (''Status'', VStr ''Pending''),
              (''Priority'', VStr (case High of
                                     High \<Rightarrow> ''High'' | Medium \<Rightarrow> ''Medium'' | Low \<Rightarrow> ''Low'')),
              (''DueDate'', VDate (19875 * 86400000)),
              (''CreatedAt'', VDate (utcnow add_inputs))] = new_doc"
    by (simp add: new_doc_def ex_store_def add_inputs_def ex_inputs_def strip_Alex strip_Write)
  have recent: "\<forall>t\<in>set (docs ex_store). map_of t ''Username'' = Some (VStr (strip (username add_inputs))) \<longrightarrow>
                  bson_key (map_of t ''CreatedAt'') < bson_key (Some (VDate (utcnow add_inputs)))"
    by (simp add: ex_store_def add_inputs_def ex_inputs_def alex_doc_def bob_doc_def alex_doc2_def)
  from add_task_inserts [OF h1 h2 h3 h4, of ex_store] recent h5
  have d: "docs (final (sidebar add_inputs ex_store)) = docs ex_store @ [new_doc]"
    and f: "\<exists>rest. fetch add_inputs (final (sidebar add_inputs ex_store)) = (new_doc # rest, [])"
    unfolding Let_def new by blast+
  have u: "strip (username add_inputs) = ''Alex''"
    by (simp add: add_inputs_def ex_inputs_def strip_Alex)
  have "fetch add_inputs (final (sidebar add_inputs ex_store)) = ([new_doc, alex_doc2, alex_doc], [])"
    unfolding fetch_ok [OF h3 h5] d u
    by (simp add: ex_store_def sort_desc_def alex_doc_def bob_doc_def alex_doc2_def new_doc_def)
  with h1 h2 h3 h4 h5 d show ?thesis by (simp add: ex_store_def)
qed

subsection \<open>Auxiliary facts about a pass with a pressed Save button\<close>

lemma length_update_first: "length (update_first P f xs) = length xs"
  by (induction xs) auto

lemma update_first_nth:
  "n < length xs \<Longrightarrow> update_first P f xs ! n = xs ! n \<or> (P (xs ! n) \<and> update_first P f xs ! n = f (xs ! n))"
proof (induction xs arbitrary: n)
  case Nil
  then show ?case by simp
next
  case (Cons x xs)
  then show ?case by (cases n) auto
qed

lemma map_of_set_fields:
  "k \<notin> fst ` set upd \<Longrightarrow> map_of (set_fields upd t) k = map_of t k"
  unfolding set_fields_def
  by (induction upd arbitrary: t) (auto simp: update_conv')

lemma task_rows_final_save:
  assumes "event inp = Save i new_task_name new_status new_priority"
  shows "final (task_rows inp ts st) = st \<or>
         save_task (write_fault inp) i new_task_name new_status new_priority st =
           Inr (final (task_rows inp ts st))"
  using assms
  by (induction ts) (auto simp: Let_def split: sum.splits prod.splits)

lemma manage_final_save:
  assumes "event inp = Save i new_task_name new_status new_priority"
  shows "final (manage inp ts st) = st \<or>
         save_task (write_fault inp) i new_task_name new_status new_priority st =
           Inr (final (manage inp ts st))"
  using task_rows_final_save [OF assms]
  by (auto simp: manage_def split: sum.splits)

lemma main_page_final: "final (main_page to_datetime inp ts st) = st \<or>
   final (main_page to_datetime inp ts st) = final (manage inp ts st)"
  by (simp add: main_page_def Let_def split: sum.splits)

lemma sidebar_no_add:
  assumes "\<And>n p d. event inp \<noteq> AddTask n p d"
  shows "sidebar inp st = \<lparr>shown = [], ending = Normal, final = st\<rparr>"
proof (cases "event inp")
  case (AddTask n p d)
  with assms show ?thesis by blast
qed (simp_all add: sidebar_def)

lemma script_no_add:
  assumes "\<And>n p d. event inp \<noteq> AddTask n p d"
  shows "script to_datetime inp st =
     (let r = main_page to_datetime inp (fst (fetch inp st)) st in r\<lparr>shown := snd (fetch inp st) @ shown r\<rparr>)"
  by (simp add: script_def sidebar_no_add [OF assms] Let_def split: prod.splits)

lemma script_final_save:
  assumes "event inp = Save i new_task_name new_status new_priority"
  shows "final (script to_datetime inp st) = st \<or>
         save_task (write_fault inp) i new_task_name new_status new_priority st =
           Inr (final (script to_datetime inp st))"
proof -
  have na: "\<And>n p d. event inp \<noteq> AddTask n p d" using assms by simp
  have "final (script to_datetime inp st) = final (main_page to_datetime inp (fst (fetch inp st)) st)"
    by (simp add: script_no_add [OF na] Let_def)
  with main_page_final [of to_datetime inp "fst (fetch inp st)" st]
    manage_final_save [OF assms, of "fst (fetch inp st)" st]
  show ?thesis by auto
qed

lemmas script_defs = script_def sidebar_def main_page_def kpi_def kpi_widgets_def chart_def upcoming_def
  manage_def task_form_def save_task_def delete_task_def updates_def update_one_def delete_one_def
  get_item_def get_default_def sort_values_def coerce_dropna_def map_filter_simps
  matches_def field_matches_def set_fields_def STATUS_OPTIONS_def PRIORITY_OPTIONS_def Let_def

lemma strip_Final: "strip '' Final report '' = ''Final report''"
  by (simp add: strip_def is_space_def whitespace_def)

lemma fetch_cong:
  "username a = username b \<Longrightarrow> find_fault a = find_fault b \<Longrightarrow> fetch a st = fetch b st"
  by (simp add: fetch_def)

lemma script_save_example:
  "script ex_to_datetime save_inputs ex_store =
     \<lparr>shown = [Metric ''Total Tasks'' 2, Metric ''Completed'' 0, Metric ''Pending'' 2,
               PlotlyChart [VStr ''In Progress'', VStr ''Pending''],
               DataFrame [\<lparr>row_task = VStr ''Call client'', row_priority = VStr ''Medium'', row_due = 70\<rparr>,
                          \<lparr>row_task = VStr ''Write report'', row_priority = VStr ''High'', row_due = 100\<rparr>],
               TaskForm (VId 2) (VStr ''Call client'') 1 1,
               TaskForm (VId 0) (VStr ''Write report'') 0 0,
               Toast ''Task updated!''],
      ending = Rerun,
      final = \<lparr>docs = [saved_doc, bob_doc, alex_doc2], next_id = 3\<rparr>\<rparr>"
proof -
  have f: "fetch save_inputs ex_store = ([alex_doc2, alex_doc], [])"
    using fetch_example fetch_cong [of save_inputs ex_inputs ex_store]
    by (simp add: save_inputs_def)
  have e: "event save_inputs = Save (VId 0) (Some '' Final report '') Completed Low"
      "username save_inputs = '' Alex ''" "write_fault save_inputs = None"
      "filter_status save_inputs = [Pending, In_Progress, Completed]"
    by (simp_all add: save_inputs_def ex_inputs_def)
  show ?thesis
    unfolding script_no_add [of save_inputs, unfolded e, simplified] f
    by (simp add: script_defs e strip_Alex strip_Final ex_to_datetime_def
        alex_doc_def alex_doc2_def bob_doc_def saved_doc_def ex_store_def)
qed

subsection \<open>Save changes only the title, the status and the priority of one task\<close>

text \<open>
  C3. In a pass in which a Save button is pressed, whatever the pass does, the collection
  afterwards has the same number of documents and the same id counter; in every document
  each field other than \<^verbatim>\<open>Task\<close>, \<^verbatim>\<open>Status\<close> and \<^verbatim>\<open>Priority\<close> (so \<^verbatim>\<open>Username\<close>,
  \<^verbatim>\<open>DueDate\<close>, \<^verbatim>\<open>CreatedAt\<close> and \<^verbatim>\<open>_id\<close>) is what it was, and every document whose
  \<^verbatim>\<open>_id\<close> is not the one of the saved form is unchanged as a whole.
\<close>

theorem save_frame:
  assumes "event inp = Save i new_task_name new_status new_priority"
      and "n < length (docs st)"
  shows "next_id (final (script to_datetime inp st)) = next_id st \<and>
         length (docs (final (script to_datetime inp st))) = length (docs st) \<and>
         (k \<notin> {''Task'', ''Status'', ''Priority''} \<longrightarrow>
            map_of (docs (final (script to_datetime inp st)) ! n) k = map_of (docs st ! n) k) \<and>
         (map_of (docs st ! n) ''_id'' \<noteq> Some i \<longrightarrow>
            docs (final (script to_datetime inp st)) ! n = docs st ! n)"
proof -
  let ?st' = "final (script to_datetime inp st)"
  from script_final_save [OF assms(1), of to_datetime st]
  have "?st' = st \<or>
        (\<exists>title. st\<lparr>docs := update_first (matches [(''_id'', i)])
           (set_fields [(''Task'', VStr (strip title)), (''Status'', VStr (status_str new_status)),
                        (''Priority'', VStr (priority_str new_priority))]) (docs st)\<rparr> = ?st')"
    by (cases new_task_name)
       (auto simp: save_task_def updates_def update_one_def split: option.splits)
  then consider "?st' = st"
    | title where "?st' = st\<lparr>docs := update_first (matches [(''_id'', i)])
         (set_fields [(''Task'', VStr (strip title)), (''Status'', VStr (status_str new_status)),
                      (''Priority'', VStr (priority_str new_priority))]) (docs st)\<rparr>"
    by metis
  then show ?thesis
  proof cases
    case 1
    then show ?thesis by simp
  next
    case 2
    let ?upd = "[(''Task'', VStr (strip title)), (''Status'', VStr (status_str new_status)),
                 (''Priority'', VStr (priority_str new_priority))]"
    have keys: "k \<notin> {''Task'', ''Status'', ''Priority''} \<Longrightarrow> k \<notin> fst ` set ?upd"
      by simp
    from update_first_nth [OF assms(2), of "matches [(''_id'', i)]" "set_fields ?upd"]
    show ?thesis
      unfolding 2
      by (auto simp: length_update_first matches_single map_of_set_fields [OF keys])
  qed
qed

theorem save_frame_witness:
  "event save_inputs = Save (VId 0) (Some '' Final report '') Completed Low \<and>
   (0::nat) < length (docs ex_store) \<and> (1::nat) < length (docs ex_store) \<and>
   ''DueDate'' \<notin> {''Task'', ''Status'', ''Priority''} \<and>
   docs (final (script ex_to_datetime save_inputs ex_store)) = [saved_doc, bob_doc, alex_doc2] \<and>
   docs ex_store = [alex_doc, bob_doc, alex_doc2] \<and>
   map_of saved_doc ''DueDate'' = map_of alex_doc ''DueDate'' \<and>
   map_of saved_doc ''Task'' = Some (VStr ''Final report'') \<and>
   map_of bob_doc ''_id'' \<noteq> Some (VId 0)"
proof -
  have h1: "event save_inputs = Save (VId 0) (Some '' Final report '') Completed Low"
    by (simp add: save_inputs_def ex_inputs_def)
  have h2: "(0::nat) < length (docs ex_store)" and h3: "(1::nat) < length (docs ex_store)"
    by (simp_all add: ex_store_def)
  have k: "''DueDate'' \<notin> {''Task'', ''Status'', ''Priority''}" by simp
  have d: "docs (final (script ex_to_datetime save_inputs ex_store)) = [saved_doc, bob_doc, alex_doc2]"
    by (simp add: script_save_example)
  have b: "map_of bob_doc ''_id'' \<noteq> Some (VId 0)" by (simp add: bob_doc_def)
  from save_frame [OF h1 h2, of ex_to_datetime "''DueDate''"] k d
  have a: "map_of saved_doc ''DueDate'' = map_of alex_doc ''DueDate''"
    by (simp add: ex_store_def)
  from save_frame [OF h1 h3, of ex_to_datetime "''DueDate''"] b d
  have "[saved_doc, bob_doc, alex_doc2] ! 1 = bob_doc"
    by (simp add: ex_store_def)
  with h1 h2 h3 k d a b show ?thesis
    by (simp add: ex_store_def saved_doc_def)
qed

subsection \<open>Auxiliary facts about rendering\<close>

lemma task_form_fields:
  assumes "task_form t = Inr (i, w)"
  shows "map_of t ''_id'' = Some i" and "map_of t ''Task'' \<noteq> None" and "map_of t ''Status'' \<noteq> None"
  using assms by (auto simp: task_form_def get_item_def split: option.splits sum.splits)

lemma renders_fields:
  assumes "\<not> isl (task_form t)"
  shows "map_of t ''_id'' \<noteq> None" and "map_of t ''Task'' \<noteq> None" and "map_of t ''Status'' \<noteq> None"
proof -
  from assms obtain i w where "task_form t = Inr (i, w)" by (cases "task_form t") auto
  from task_form_fields [OF this]
  show "map_of t ''_id'' \<noteq> None" and "map_of t ''Task'' \<noteq> None" and "map_of t ''Status'' \<noteq> None"
    by simp_all
qed

lemma completed_count_Inr:
  "\<forall>t\<in>set ts. map_of t ''Status'' \<noteq> None \<Longrightarrow>
     completed_count ts = Inr (int (length (filter (\<lambda>t. map_of t ''Status'' = Some (VStr ''Completed'')) ts)))"
  by (induction ts) (auto simp: get_item_def)

lemma completed_count_Inl:
  "t \<in> set ts \<Longrightarrow> map_of t ''Status'' = None \<Longrightarrow> completed_count ts = Inl (KeyError ''Status'')"
proof (induction ts)
  case Nil
  then show ?case by simp
next
  case (Cons a ts)
  show ?case
  proof (cases "map_of a ''Status''")
    case None
    then show ?thesis by (simp add: get_item_def)
  next
    case (Some s)
    with Cons have "completed_count ts = Inl (KeyError ''Status'')" by auto
    with Some show ?thesis by (simp add: get_item_def)
  qed
qed

lemma traverse_status_Inr:
  "\<forall>t\<in>set ts. map_of t ''Status'' \<noteq> None \<Longrightarrow> \<exists>ss. traverse (\<lambda>t. get_item t ''Status'') ts = Inr ss"
  by (induction ts) (auto simp: get_item_def)

lemma pending_rows_Inr:
  "\<forall>t\<in>set ts. map_of t ''Status'' \<noteq> None \<and> map_of t ''Task'' \<noteq> None \<Longrightarrow> \<exists>rs. pending_rows ts = Inr rs"
  by (induction ts) (auto simp: get_item_def)

lemma filter_tasks_Inr:
  "\<forall>t\<in>set ts. map_of t ''Status'' \<noteq> None \<Longrightarrow>
     filter_tasks sel ts = Inr (filter (\<lambda>t. \<exists>s\<in>set sel. map_of t ''Status'' = Some (VStr s)) ts)"
  by (induction ts) (auto simp: get_item_def)

lemma task_rows_save:
  assumes "event inp = Save i (Some title) new_status new_priority"
      and "write_fault inp = None"
      and "\<forall>t\<in>set fs. \<not> isl (task_form t)"
      and "\<exists>t\<in>set fs. map_of t ''_id'' = Some i"
  shows "ending (task_rows inp fs st) = Rerun \<and>
         save_task None i (Some title) new_status new_priority st = Inr (final (task_rows inp fs st))"
  using assms(3,4)
proof (induction fs)
  case Nil
  then show ?case by simp
next
  case (Cons t fs)
  from Cons.prems(1) obtain j w where tf: "task_form t = Inr (j, w)"
    by (cases "task_form t") auto
  note id = task_form_fields(1) [OF tf]
  have ok: "\<exists>st'. save_task None i (Some title) new_status new_priority st = Inr st'"
    by (simp add: save_task_def updates_def update_one_def)
  show ?case
  proof (cases "i = j")
    case True
    with tf assms(1,2) ok show ?thesis by auto
  next
    case False
    with id Cons.prems have "\<exists>t\<in>set fs. map_of t ''_id'' = Some i" by auto
    with Cons have "ending (task_rows inp fs st) = Rerun \<and>
         save_task None i (Some title) new_status new_priority st = Inr (final (task_rows inp fs st))"
      by simp
    with False tf assms(1) show ?thesis by (simp add: Let_def)
  qed
qed

lemma update_first_some:
  "\<exists>x\<in>set xs. P x \<Longrightarrow> \<exists>x\<in>set xs. P x \<and> f x \<in> set (update_first P f xs)"
  by (induction xs) auto

lemma map_of_updates_Task:
  "map_of (set_fields [(''Task'', x), (''Status'', y), (''Priority'', z)] t) ''Task'' = Some x"
  by (simp add: set_fields_def update_conv')

subsection \<open>Save does not validate the title\<close>

text \<open>
  C9. The Save handler has no check of the title. In a pass of a non-blank user in which
  the store answers, all tasks of the user render, and Save is pressed in the form of a
  stored task of the user whose status is selected in the filter, with a title that is
  empty or whitespace only: the pass ends with the rerun that follows the update, and the
  collection then holds a document with that \<^verbatim>\<open>_id\<close> whose title is the empty string.
\<close>

theorem save_blank_title:
  assumes "event inp = Save i (Some new_task_name) new_status new_priority"
      and "\<forall>c\<in>set new_task_name. is_space c"
      and "strip (username inp) \<noteq> []" and "find_fault inp = None" and "write_fault inp = None"
      and "\<forall>t\<in>set (docs st). map_of t ''Username'' = Some (VStr (strip (username inp)))
              \<longrightarrow> \<not> isl (task_form t)"
      and "t0 \<in> set (docs st)" and "map_of t0 ''Username'' = Some (VStr (strip (username inp)))"
      and "map_of t0 ''_id'' = Some i" and "map_of t0 ''Status'' = Some (VStr (status_str s0))"
      and "s0 \<in> set (filter_status inp)"
  shows "ending (script to_datetime inp st) = Rerun \<and>
         (\<exists>d\<in>set (docs (final (script to_datetime inp st))).
            map_of d ''_id'' = Some i \<and> map_of d ''Task'' = Some (VStr ''''))"
proof -
  let ?own = "\<lambda>t. map_of t ''Username'' = Some (VStr (strip (username inp)))"
  define ts where "ts = sort_desc (\<lambda>t. bson_key (map_of t ''CreatedAt'')) (filter ?own (docs st))"
  have f: "fetch inp st = (ts, [])"
    unfolding ts_def using assms(3,4) by (rule fetch_ok)
  have set_ts: "set ts = {t \<in> set (docs st). ?own t}"
    by (simp add: ts_def set_sort_desc)
  have t0: "t0 \<in> set ts" using assms(7,8) by (simp add: set_ts)
  have rend: "\<forall>t\<in>set ts. \<not> isl (task_form t)" using assms(6) by (simp add: set_ts)
  have st: "\<forall>t\<in>set ts. map_of t ''Status'' \<noteq> None"
    and stt: "\<forall>t\<in>set ts. map_of t ''Status'' \<noteq> None \<and> map_of t ''Task'' \<noteq> None"
    using rend renders_fields by blast+
  obtain c where k: "kpi ts = Inr c"
    by (simp add: kpi_def completed_count_Inr [OF st] Let_def)
  have "\<exists>w2. chart (fst c) ts = Inr w2"
    using traverse_status_Inr [OF st] by (auto simp: chart_def)
  then obtain w2 where ch: "chart (fst c) ts = Inr w2" ..
  have "\<exists>w3. upcoming to_datetime (username inp) (snd (snd c)) ts = Inr w3"
    using pending_rows_Inr [OF stt] by (auto simp: upcoming_def)
  then obtain w3 where up: "upcoming to_datetime (username inp) (snd (snd c)) ts = Inr w3" ..
  define fs where
    "fs = filter (\<lambda>t. \<exists>s\<in>set (map status_str (filter_status inp)). map_of t ''Status'' = Some (VStr s)) ts"
  have ne: "ts \<noteq> []" using t0 by auto
  have m: "manage inp ts st = task_rows inp fs st"
    using ne unfolding fs_def by (simp add: manage_def filter_tasks_Inr [OF st])
  have "t0 \<in> set fs" using t0 assms(10,11) by (auto simp: fs_def)
  then have ex: "\<exists>t\<in>set fs. map_of t ''_id'' = Some i" using assms(9) by blast
  have rend': "\<forall>t\<in>set fs. \<not> isl (task_form t)" using rend by (simp add: fs_def)
  from task_rows_save [OF assms(1) assms(5) rend' ex, of st]
  have tr: "ending (task_rows inp fs st) = Rerun"
    and sv: "save_task None i (Some new_task_name) new_status new_priority st = Inr (final (task_rows inp fs st))"
    by simp_all
  have na: "\<And>n p d. event inp \<noteq> AddTask n p d" using assms(1) by simp
  have sc: "ending (script to_datetime inp st) = Rerun"
       "final (script to_datetime inp st) = final (task_rows inp fs st)"
    by (simp_all add: script_no_add [OF na] f main_page_def k ch up m tr Let_def)
  let ?upd = "[(''Task'', VStr (strip new_task_name)), (''Status'', VStr (status_str new_status)),
               (''Priority'', VStr (priority_str new_priority))]"
  define P where "P = matches [(''_id'', i)]"
  have Pi: "\<And>x. P x \<longleftrightarrow> map_of x ''_id'' = Some i"
    by (simp add: P_def matches_single)
  from sv have "final (task_rows inp fs st) =
      st\<lparr>docs := update_first P (set_fields ?upd) (docs st)\<rparr>"
    by (simp add: save_task_def updates_def update_one_def P_def)
  then have fin: "docs (final (script to_datetime inp st)) =
      update_first P (set_fields ?upd) (docs st)"
    by (simp add: sc)
  have "\<exists>x\<in>set (docs st). P x"
    using assms(7,9) Pi by blast
  from update_first_some [OF this, of "set_fields ?upd"]
  obtain x where "P x" and "set_fields ?upd x \<in> set (update_first P (set_fields ?upd) (docs st))"
    by blast
  then have x: "map_of x ''_id'' = Some i"
      "set_fields ?upd x \<in> set (docs (final (script to_datetime inp st)))"
    by (simp_all add: Pi fin)
  have "''_id'' \<notin> fst ` set ?upd" by simp
  then have "map_of (set_fields ?upd x) ''_id'' = Some i"
    using x(1) by (simp add: map_of_set_fields)
  moreover have "strip new_task_name = []" using assms(2) by (simp add: strip_empty_iff)
  then have "map_of (set_fields ?upd x) ''Task'' = Some (VStr '''')"
    by (simp only: map_of_updates_Task)
  ultimately show ?thesis using sc(1) x(2) by blast
qed

lemma script_blank_save_example:
  "script ex_to_datetime blank_save_inputs ex_store =
     \<lparr>shown = [Metric ''Total Tasks'' 2, Metric ''Completed'' 0, Metric ''Pending'' 2,
               PlotlyChart [VStr ''In Progress'', VStr ''Pending''],
               DataFrame [\<lparr>row_task = VStr ''Call client'', row_priority = VStr ''Medium'', row_due = 70\<rparr>,
                          \<lparr>row_task = VStr ''Write report'', row_priority = VStr ''High'', row_due = 100\<rparr>],
               TaskForm (VId 2) (VStr ''Call client'') 1 1,
               TaskForm (VId 0) (VStr ''Write report'') 0 0,
               Toast ''Task updated!''],
      ending = Rerun,
      final = \<lparr>docs = [blank_doc, bob_doc, alex_doc2], next_id = 3\<rparr>\<rparr>"
proof -
  have f: "fetch blank_save_inputs ex_store = ([alex_doc2, alex_doc], [])"
    using fetch_example fetch_cong [of blank_save_inputs ex_inputs ex_store]
    by (simp add: blank_save_inputs_def)
  have e: "event blank_save_inputs = Save (VId 0) (Some ''  '') Pending High"
      "username blank_save_inputs = '' Alex ''" "write_fault blank_save_inputs = None"
      "filter_status blank_save_inputs = [Pending, In_Progress, Completed]"
    by (simp_all add: blank_save_inputs_def ex_inputs_def)
  have b: "strip ''  '' = []" by (simp add: strip_def is_space_def whitespace_def)
  show ?thesis
    unfolding script_no_add [of blank_save_inputs, unfolded e, simplified] f
    by (simp add: script_defs e strip_Alex b ex_to_datetime_def
        alex_doc_def alex_doc2_def bob_doc_def blank_doc_def ex_store_def)
qed

theorem save_blank_title_witness:
  "event blank_save_inputs = Save (VId 0) (Some ''  '') Pending High \<and> strip ''  '' = [] \<and>
   strip (username blank_save_inputs) \<noteq> [] \<and> find_fault blank_save_inputs = None \<and>
   write_fault blank_save_inputs = None \<and>
   \<not> isl (task_form alex_doc) \<and> \<not> isl (task_form alex_doc2) \<and>
   alex_doc \<in> set (docs ex_store) \<and> map_of alex_doc ''_id'' = Some (VId 0) \<and>
   map_of alex_doc ''Task'' = Some (VStr ''Write report'') \<and>
   ending (script ex_to_datetime blank_save_inputs ex_store) = Rerun \<and>
   docs (final (script ex_to_datetime blank_save_inputs ex_store)) = [blank_doc, bob_doc, alex_doc2] \<and>
   map_of blank_doc ''_id'' = Some (VId 0) \<and> map_of blank_doc ''Task'' = Some (VStr '''')"
proof -
  have h1: "event blank_save_inputs = Save (VId 0) (Some ''  '') Pending High"
    by (simp add: blank_save_inputs_def ex_inputs_def)
  have h2: "\<forall>c\<in>set ''  ''. is_space c" by (simp add: is_space_def whitespace_def)
  have u: "strip (username blank_save_inputs) = ''Alex''"
    by (simp add: blank_save_inputs_def ex_inputs_def strip_Alex)
  have h3: "strip (username blank_save_inputs) \<noteq> []" by (simp add: u)
  have h4: "find_fault blank_save_inputs = None" and h5: "write_fault blank_save_inputs = None"
    by (simp_all add: blank_save_inputs_def ex_inputs_def)
  have r1: "\<not> isl (task_form alex_doc)" and r2: "\<not> isl (task_form alex_doc2)"
    by (simp_all add: task_form_def get_item_def get_default_def STATUS_OPTIONS_def
        PRIORITY_OPTIONS_def alex_doc_def alex_doc2_def)
  have h6: "\<forall>t\<in>set (docs ex_store).
              map_of t ''Username'' = Some (VStr (strip (username blank_save_inputs))) \<longrightarrow>
              \<not> isl (task_form t)"
    using r1 r2 by (simp add: u ex_store_def bob_doc_def)
  have h7: "alex_doc \<in> set (docs ex_store)" by (simp add: ex_store_def)
  have h8: "map_of alex_doc ''Username'' = Some (VStr (strip (username blank_save_inputs)))"
    by (simp add: u alex_doc_def)
  have h9: "map_of alex_doc ''_id'' = Some (VId 0)" by (simp add: alex_doc_def)
  have h10: "map_of alex_doc ''Status'' = Some (VStr (status_str Pending))" by (simp add: alex_doc_def)
  have h11: "Pending \<in> set (filter_status blank_save_inputs)"
    by (simp add: blank_save_inputs_def ex_inputs_def)
  from save_blank_title [OF h1 h2 h3 h4 h5 h6 h7 h8 h9 h10 h11, of ex_to_datetime]
  have e: "ending (script ex_to_datetime blank_save_inputs ex_store) = Rerun" by simp
  have d: "docs (final (script ex_to_datetime blank_save_inputs ex_store)) = [blank_doc, bob_doc, alex_doc2]"
    by (simp add: script_blank_save_example)
  from h1 h2 h3 h4 h5 r1 r2 h7 h9 e d show ?thesis
    by (simp add: strip_empty_iff alex_doc_def blank_doc_def)
qed

subsection \<open>Auxiliary facts about an empty task list\<close>

lemma main_page_empty:
  "strip (username inp) \<noteq> [] \<Longrightarrow>
   main_page to_datetime inp [] st =
     \<lparr>shown = [Metric ''Total Tasks'' 0, Metric ''Completed'' 0, Metric ''Pending'' 0,
               Info ''Add a task to see the status distribution chart.'',
               Info ''No pending tasks with deadlines.'',
               Info ''No tasks found. Add your first task from the sidebar!''],
      ending = Normal, final = st\<rparr>"
  by (simp add: main_page_def kpi_def kpi_widgets_def chart_def upcoming_def manage_def)

subsection \<open>A failing listing query is shown and treated as an empty list\<close>

text \<open>
  C8. When the listing query of a non-blank user fails (and the sidebar did not end the
  pass), the exception is caught: the error message with the exception is shown,
  \<open>all_tasks\<close> is empty, the three metrics are 0, the chart, the deadlines panel and the
  task list show their messages for an empty list, and the pass ends normally with the
  collection as the sidebar left it.
\<close>

theorem fetch_failure_nonfatal:
  assumes "strip (username inp) \<noteq> []" and "find_fault inp = Some m"
      and "ending (sidebar inp st) = Normal"
  shows "fetch inp (final (sidebar inp st)) = ([], [ErrorF ''Failed to fetch tasks: '' (PyMongoError m)]) \<and>
         script to_datetime inp st =
           \<lparr>shown = shown (sidebar inp st) @
                      [ErrorF ''Failed to fetch tasks: '' (PyMongoError m),
                       Metric ''Total Tasks'' 0, Metric ''Completed'' 0, Metric ''Pending'' 0,
                       Info ''Add a task to see the status distribution chart.'',
                       Info ''No pending tasks with deadlines.'',
                       Info ''No tasks found. Add your first task from the sidebar!''],
            ending = Normal, final = final (sidebar inp st)\<rparr>"
proof -
  have f: "fetch inp (final (sidebar inp st)) =
             ([], [ErrorF ''Failed to fetch tasks: '' (PyMongoError m)])"
    using assms(1,2) by (simp add: fetch_def find_coll_def)
  then show ?thesis
    using assms(3) by (simp add: script_def Let_def main_page_empty [OF assms(1)])
qed

theorem fetch_failure_nonfatal_witness:
  "strip (username down_inputs) \<noteq> [] \<and> find_fault down_inputs = Some ''timed out'' \<and>
   ending (sidebar down_inputs ex_store) = Normal \<and>
   script ex_to_datetime down_inputs ex_store =
     \<lparr>shown = [ErrorF ''Failed to fetch tasks: '' (PyMongoError ''timed out''),
               Metric ''Total Tasks'' 0, Metric ''Completed'' 0, Metric ''Pending'' 0,
               Info ''Add a task to see the status distribution chart.'',
               Info ''No pending tasks with deadlines.'',
               Info ''No tasks found. Add your first task from the sidebar!''],
      ending = Normal, final = ex_store\<rparr>"
proof -
  have h1: "strip (username down_inputs) \<noteq> []"
    by (simp add: down_inputs_def ex_inputs_def strip_Alex)
  have h2: "find_fault down_inputs = Some ''timed out''"
    by (simp add: down_inputs_def)
  have na: "\<And>n p d. event down_inputs \<noteq> AddTask n p d"
    by (simp add: down_inputs_def ex_inputs_def)
  have sb: "sidebar down_inputs ex_store = \<lparr>shown = [], ending = Normal, final = ex_store\<rparr>"
    by (rule sidebar_no_add [OF na])
  then have h3: "ending (sidebar down_inputs ex_store) = Normal" by simp
  from fetch_failure_nonfatal [OF h1 h2 h3, of ex_to_datetime] h1 h2 h3 sb
  show ?thesis by simp
qed

subsection \<open>Auxiliary facts about exceptions of a pass\<close>

lemma index_of_mem: "x \<in> set ys \<Longrightarrow> \<exists>n. index_of ys x = Inr n"
  by (induction ys) auto

lemma status_str_option: "VStr (status_str s) \<in> set (map VStr STATUS_OPTIONS)"
  by (cases s) (simp_all add: STATUS_OPTIONS_def)

lemma task_form_renders:
  assumes "map_of t ''_id'' \<noteq> None" and "map_of t ''Task'' \<noteq> None"
      and "map_of t ''Status'' = Some (VStr (status_str s))"
      and "get_default t ''Priority'' (VStr ''Medium'') \<in> set (map VStr PRIORITY_OPTIONS)"
  shows "\<not> isl (task_form t)"
proof -
  obtain si where "index_of (map VStr STATUS_OPTIONS) (VStr (status_str s)) = Inr si"
    using index_of_mem [OF status_str_option] by blast
  moreover obtain pi where
    "index_of (map VStr PRIORITY_OPTIONS) (get_default t ''Priority'' (VStr ''Medium'')) = Inr pi"
    using index_of_mem [OF assms(4)] by blast
  ultimately show ?thesis
    using assms(1-3) by (auto simp: task_form_def get_item_def)
qed

lemma save_raises:
  "save_task f i n s p st = Inl e \<Longrightarrow>
     (\<exists>m. e = PyMongoError m) \<or> (n = None \<and> e = AttributeError ''strip'')"
  by (auto simp: save_task_def updates_def update_one_def split: option.splits)

lemma delete_raises: "delete_task f i st = Inl e \<Longrightarrow> \<exists>m. e = PyMongoError m"
  by (auto simp: delete_task_def delete_one_def split: option.splits)

lemma task_rows_raises:
  assumes "\<forall>t\<in>set fs. \<not> isl (task_form t)" and "ending (task_rows inp fs st) = Raised e"
  shows "(\<exists>m. e = PyMongoError m) \<or>
         (e = AttributeError ''strip'' \<and> (\<exists>i s p. event inp = Save i None s p))"
  using assms
proof (induction fs)
  case Nil
  then show ?case by simp
next
  case (Cons t fs)
  from Cons.prems(1) obtain j w where tf: "task_form t = Inr (j, w)"
    by (cases "task_form t") auto
  from task_form_fields(2) [OF tf] obtain title where ti: "get_item t ''Task'' = Inr title"
    by (auto simp: get_item_def)
  from Cons have ih: "ending (task_rows inp fs st) = Raised e \<Longrightarrow>
      (\<exists>m. e = PyMongoError m) \<or>
      (e = AttributeError ''strip'' \<and> (\<exists>i s p. event inp = Save i None s p))"
    by simp
  show ?case
  proof (cases "event inp")
    case NoEvent
    with Cons.prems(2) tf ih show ?thesis by (simp add: Let_def)
  next
    case (AddTask n p d)
    with Cons.prems(2) tf ih show ?thesis by (simp add: Let_def)
  next
    case (Save i n s p)
    show ?thesis
    proof (cases "i = j")
      case True
      with Save Cons.prems(2) tf
      have "save_task (write_fault inp) j n s p st = Inl e"
        by (auto split: sum.splits)
      from save_raises [OF this] Save show ?thesis by auto
    next
      case False
      with Save Cons.prems(2) tf ih show ?thesis by (simp add: Let_def)
    qed
  next
    case (Delete i)
    with Cons.prems(2) tf ti ih delete_raises show ?thesis
      by (auto simp: Let_def split: if_splits sum.splits)
  qed
qed

lemma traverse_status_map:
  "traverse (\<lambda>t. get_item t ''Status'') ts = Inr ss \<Longrightarrow> map Some ss = map (\<lambda>t. map_of t ''Status'') ts"
  by (induction ts arbitrary: ss) (auto simp: get_item_def split: option.splits sum.splits)

lemma kpi_counts:
  assumes "\<forall>t\<in>set ts. map_of t ''Status'' \<noteq> None"
  shows "kpi ts =
           Inr (int (length ts),
                int (length (filter (\<lambda>t. map_of t ''Status'' = Some (VStr ''Completed'')) ts)),
                int (length (filter (\<lambda>t. map_of t ''Status'' \<noteq> Some (VStr ''Completed'')) ts)))"
proof -
  have "length (filter (\<lambda>t. map_of t ''Status'' = Some (VStr ''Completed'')) ts) +
        length (filter (\<lambda>t. map_of t ''Status'' \<noteq> Some (VStr ''Completed'')) ts) = length ts"
    by (rule sum_length_filter_compl)
  then show ?thesis
    by (simp add: kpi_def completed_count_Inr [OF assms] Let_def)
qed

lemma fetch_blocked: "fetch ex_inputs blocked_store = ([blocked_doc], [])"
  by (simp add: fetch_def ex_inputs_def blocked_store_def strip_Alex find_coll_def sort_cursor_def
      sort_desc_def matches_def field_matches_def blocked_doc_def)

subsection \<open>What rendering presupposes about the status and the priority of a task\<close>

text \<open>
  C10, as stated, fails: a task whose status is outside the option list does not make the
  pass fail. It is counted and charted, and line 191 keeps it out of the editable list,
  because the selection of the status filter only holds options; the status selectbox is
  never built for it.
\<close>

theorem status_out_of_enum_counterexample:
  "map_of blocked_doc ''Status'' = Some (VStr ''Blocked'') \<and> ''Blocked'' \<notin> set STATUS_OPTIONS \<and>
   fetch ex_inputs blocked_store = ([blocked_doc], []) \<and>
   script ex_to_datetime ex_inputs blocked_store =
     \<lparr>shown = [Metric ''Total Tasks'' 1, Metric ''Completed'' 0, Metric ''Pending'' 1,
               PlotlyChart [VStr ''Blocked''], DataFrame []],
      ending = Normal, final = blocked_store\<rparr>"
proof -
  have e: "event ex_inputs = NoEvent" "username ex_inputs = '' Alex ''"
      "filter_status ex_inputs = [Pending, In_Progress, Completed]"
    by (simp_all add: ex_inputs_def)
  have "script ex_to_datetime ex_inputs blocked_store =
     \<lparr>shown = [Metric ''Total Tasks'' 1, Metric ''Completed'' 0, Metric ''Pending'' 1,
               PlotlyChart [VStr ''Blocked''], DataFrame []],
      ending = Normal, final = blocked_store\<rparr>"
    unfolding script_no_add [of ex_inputs, unfolded e, simplified] fetch_blocked
    by (simp add: script_defs e strip_Alex ex_to_datetime_def blocked_doc_def blocked_store_def)
  then show ?thesis
    by (simp add: fetch_blocked blocked_doc_def STATUS_OPTIONS_def)
qed

text \<open>
  C10, amended. (1) A fetched task without a \<^verbatim>\<open>Status\<close> field makes the pass fail with
  KeyError at the KPI count. (2) When every fetched task has \<^verbatim>\<open>_id\<close>, \<^verbatim>\<open>Task\<close> and
  \<^verbatim>\<open>Status\<close> (of any value) and its priority is missing or in the priority list, then
  every task is counted in the total, every task whose status is not Completed (one with
  a status outside the option list too) is counted as pending, the chart gets the status
  of every task, the editable list is built from exactly the tasks whose status is a
  selected option, and the pass raises no exception other than one of the store, or the
  AttributeError of line 208 when Save is pressed while the title widget holds
  \<^verbatim>\<open>None\<close>. (3) The priority selectbox of a task without \<^verbatim>\<open>Priority\<close> field stands
  at index 1, Medium.
\<close>

theorem status_presupposition:
  "(t \<in> set all_tasks \<and> map_of t ''Status'' = None \<longrightarrow>
      ending (main_page to_datetime inp all_tasks st) = Raised (KeyError ''Status'')) \<and>
   ((\<forall>t\<in>set all_tasks. map_of t ''_id'' \<noteq> None \<and> map_of t ''Task'' \<noteq> None \<and>
        map_of t ''Status'' \<noteq> None \<and>
        get_default t ''Priority'' (VStr ''Medium'') \<in> set (map VStr PRIORITY_OPTIONS)) \<longrightarrow>
      (all_tasks \<noteq> [] \<longrightarrow>
         (\<exists>ss rest.
            shown (main_page to_datetime inp all_tasks st) =
              [Metric ''Total Tasks'' (int (length all_tasks)),
               Metric ''Completed''
                 (int (length (filter (\<lambda>t. map_of t ''Status'' = Some (VStr ''Completed'')) all_tasks))),
               Metric ''Pending''
                 (int (length (filter (\<lambda>t. map_of t ''Status'' \<noteq> Some (VStr ''Completed'')) all_tasks))),
               PlotlyChart ss] @ rest \<and>
            map Some ss = map (\<lambda>t. map_of t ''Status'') all_tasks)) \<and>
      filter_tasks (map status_str (filter_status inp)) all_tasks =
        Inr (filter (\<lambda>t. \<exists>s\<in>set (filter_status inp). map_of t ''Status'' = Some (VStr (status_str s)))
               all_tasks) \<and>
      (\<forall>e. ending (main_page to_datetime inp all_tasks st) = Raised e \<longrightarrow>
           (\<exists>m. e = PyMongoError m) \<or>
           (e = AttributeError ''strip'' \<and> (\<exists>i s p. event inp = Save i None s p)))) \<and>
   (map_of t ''Priority'' = None \<and> task_form t = Inr (i, w) \<longrightarrow>
      (\<exists>title si. w = TaskForm i title si 1))"
proof (intro conjI impI)
  assume "t \<in> set all_tasks \<and> map_of t ''Status'' = None"
  then have "completed_count all_tasks = Inl (KeyError ''Status'')"
    using completed_count_Inl [of t all_tasks] by blast
  then show "ending (main_page to_datetime inp all_tasks st) = Raised (KeyError ''Status'')"
    by (simp add: main_page_def kpi_def)
next
  assume wf: "\<forall>t\<in>set all_tasks. map_of t ''_id'' \<noteq> None \<and> map_of t ''Task'' \<noteq> None \<and>
        map_of t ''Status'' \<noteq> None \<and>
        get_default t ''Priority'' (VStr ''Medium'') \<in> set (map VStr PRIORITY_OPTIONS)"
  then have st: "\<forall>t\<in>set all_tasks. map_of t ''Status'' \<noteq> None"
    and stt: "\<forall>t\<in>set all_tasks. map_of t ''Status'' \<noteq> None \<and> map_of t ''Task'' \<noteq> None"
    by blast+
  define fs where "fs = filter (\<lambda>t. \<exists>s\<in>set (filter_status inp). map_of t ''Status'' = Some (VStr (status_str s)))
               all_tasks"
  define c where "c = (int (length all_tasks),
      int (length (filter (\<lambda>t. map_of t ''Status'' = Some (VStr ''Completed'')) all_tasks)),
      int (length (filter (\<lambda>t. map_of t ''Status'' \<noteq> Some (VStr ''Completed'')) all_tasks)))"
  have k: "kpi all_tasks = Inr c"
    unfolding c_def by (rule kpi_counts [OF st])
  have "\<exists>w3. upcoming to_datetime (username inp) (snd (snd c)) all_tasks = Inr w3"
    using pending_rows_Inr [OF stt] by (auto simp: upcoming_def)
  then obtain w3 where up: "upcoming to_datetime (username inp) (snd (snd c)) all_tasks = Inr w3" ..
  show ft: "filter_tasks (map status_str (filter_status inp)) all_tasks = Inr
      (filter (\<lambda>t. \<exists>s\<in>set (filter_status inp). map_of t ''Status'' = Some (VStr (status_str s)))
               all_tasks)"
    by (simp add: filter_tasks_Inr [OF st])
  {
    assume ne: "all_tasks \<noteq> []"
    from traverse_status_Inr [OF st] obtain ss
      where tr: "traverse (\<lambda>t. get_item t ''Status'') all_tasks = Inr ss" ..
    have ch: "chart (fst c) all_tasks = Inr [PlotlyChart ss]"
      using ne by (simp add: chart_def c_def tr)
    have "shown (main_page to_datetime inp all_tasks st) =
            kpi_widgets c @ [PlotlyChart ss] @ w3 @ shown (manage inp all_tasks st)"
      by (simp add: main_page_def k ch up Let_def)
    then have "shown (main_page to_datetime inp all_tasks st) =
              [Metric ''Total Tasks'' (int (length all_tasks)),
               Metric ''Completed''
                 (int (length (filter (\<lambda>t. map_of t ''Status'' = Some (VStr ''Completed'')) all_tasks))),
               Metric ''Pending''
                 (int (length (filter (\<lambda>t. map_of t ''Status'' \<noteq> Some (VStr ''Completed'')) all_tasks))),
               PlotlyChart ss] @ (w3 @ shown (manage inp all_tasks st))"
      by (simp add: kpi_widgets_def c_def)
    with traverse_status_map [OF tr]
    show "\<exists>ss rest.
            shown (main_page to_datetime inp all_tasks st) =
              [Metric ''Total Tasks'' (int (length all_tasks)),
               Metric ''Completed''
                 (int (length (filter (\<lambda>t. map_of t ''Status'' = Some (VStr ''Completed'')) all_tasks))),
               Metric ''Pending''
                 (int (length (filter (\<lambda>t. map_of t ''Status'' \<noteq> Some (VStr ''Completed'')) all_tasks))),
               PlotlyChart ss] @ rest \<and>
            map Some ss = map (\<lambda>t. map_of t ''Status'') all_tasks"
      by blast
  }
  show "\<forall>e. ending (main_page to_datetime inp all_tasks st) = Raised e \<longrightarrow>
           (\<exists>m. e = PyMongoError m) \<or>
           (e = AttributeError ''strip'' \<and> (\<exists>i s p. event inp = Save i None s p))"
  proof (intro allI impI)
    fix e
    assume r: "ending (main_page to_datetime inp all_tasks st) = Raised e"
    have "\<exists>w2. chart (fst c) all_tasks = Inr w2"
      using traverse_status_Inr [OF st] by (auto simp: chart_def)
    then obtain w2 where ch: "chart (fst c) all_tasks = Inr w2" ..
    from r have rm: "ending (manage inp all_tasks st) = Raised e"
      by (simp add: main_page_def k ch up Let_def)
    have rend: "\<forall>t\<in>set fs. \<not> isl (task_form t)"
    proof
      fix t assume "t \<in> set fs"
      then obtain s where "t \<in> set all_tasks" and "map_of t ''Status'' = Some (VStr (status_str s))"
        by (auto simp: fs_def)
      with wf show "\<not> isl (task_form t)"
        by (intro task_form_renders [of t s]) blast+
    qed
    from rm have "ending (task_rows inp fs st) = Raised e"
      by (simp add: manage_def ft fs_def split: if_splits)
    with rend show "(\<exists>m. e = PyMongoError m) \<or>
           (e = AttributeError ''strip'' \<and> (\<exists>i s p. event inp = Save i None s p))"
      by (rule task_rows_raises)
  qed
next
  assume a: "map_of t ''Priority'' = None \<and> task_form t = Inr (i, w)"
  then show "\<exists>title si. w = TaskForm i title si 1"
    by (auto simp: task_form_def get_default_def PRIORITY_OPTIONS_def split: sum.splits)
qed

theorem status_presupposition_witness:
  "nostatus_doc \<in> set [nostatus_doc] \<and> map_of nostatus_doc ''Status'' = None \<and>
   ending (main_page ex_to_datetime ex_inputs [nostatus_doc] ex_store) = Raised (KeyError ''Status'') \<and>
   map_of blocked_doc ''Status'' = Some (VStr ''Blocked'') \<and>
   main_page ex_to_datetime ex_inputs [blocked_doc, alex_doc] ex_store =
     \<lparr>shown = [Metric ''Total Tasks'' 2, Metric ''Completed'' 0, Metric ''Pending'' 2,
               PlotlyChart [VStr ''Blocked'', VStr ''Pending''],
               DataFrame [\<lparr>row_task = VStr ''Write report'', row_priority = VStr ''High'', row_due = 100\<rparr>],
               TaskForm (VId 0) (VStr ''Write report'') 0 0],
      ending = Normal, final = ex_store\<rparr> \<and>
   filter_tasks (map status_str (filter_status ex_inputs)) [blocked_doc, alex_doc] = Inr [alex_doc] \<and>
   ending (main_page ex_to_datetime null_save_inputs [null_doc] ex_store) =
     Raised (AttributeError ''strip'') \<and>
   map_of noprio_doc ''Priority'' = None \<and>
   task_form noprio_doc = Inr (VId 6, TaskForm (VId 6) (VStr ''Plan'') 0 1)"
proof -
  have a1: "nostatus_doc \<in> set [nostatus_doc] \<and> map_of nostatus_doc ''Status'' = None"
    by (simp add: nostatus_doc_def)
  from status_presupposition [of nostatus_doc "[nostatus_doc]" ex_to_datetime ex_inputs ex_store] a1
  have a2: "ending (main_page ex_to_datetime ex_inputs [nostatus_doc] ex_store) = Raised (KeyError ''Status'')"
    by blast
  have b1: "\<forall>t\<in>set [blocked_doc, alex_doc]. map_of t ''_id'' \<noteq> None \<and> map_of t ''Task'' \<noteq> None \<and>
        map_of t ''Status'' \<noteq> None \<and>
        get_default t ''Priority'' (VStr ''Medium'') \<in> set (map VStr PRIORITY_OPTIONS)"
    by (simp add: blocked_doc_def alex_doc_def get_default_def PRIORITY_OPTIONS_def)
  from status_presupposition [of _ "[blocked_doc, alex_doc]" ex_to_datetime ex_inputs ex_store] b1
  have "filter_tasks (map status_str (filter_status ex_inputs)) [blocked_doc, alex_doc] =
        Inr (filter (\<lambda>t. \<exists>s\<in>set (filter_status ex_inputs). map_of t ''Status'' = Some (VStr (status_str s)))
               [blocked_doc, alex_doc])"
    by blast
  then have b2: "filter_tasks (map status_str (filter_status ex_inputs)) [blocked_doc, alex_doc] = Inr [alex_doc]"
    by (simp add: ex_inputs_def blocked_doc_def alex_doc_def)
  have e: "event ex_inputs = NoEvent" "username ex_inputs = '' Alex ''"
      "filter_status ex_inputs = [Pending, In_Progress, Completed]"
    by (simp_all add: ex_inputs_def)
  have b3: "main_page ex_to_datetime ex_inputs [blocked_doc, alex_doc] ex_store =
     \<lparr>shown = [Metric ''Total Tasks'' 2, Metric ''Completed'' 0, Metric ''Pending'' 2,
               PlotlyChart [VStr ''Blocked'', VStr ''Pending''],
               DataFrame [\<lparr>row_task = VStr ''Write report'', row_priority = VStr ''High'', row_due = 100\<rparr>],
               TaskForm (VId 0) (VStr ''Write report'') 0 0],
      ending = Normal, final = ex_store\<rparr>"
    by (simp add: script_defs e strip_Alex ex_to_datetime_def blocked_doc_def alex_doc_def)
  have n: "event null_save_inputs = Save (VId 8) None Pending Medium"
      "username null_save_inputs = '' Alex ''" "write_fault null_save_inputs = None"
      "filter_status null_save_inputs = [Pending, In_Progress, Completed]"
    by (simp_all add: null_save_inputs_def ex_inputs_def)
  have b4: "ending (main_page ex_to_datetime null_save_inputs [null_doc] ex_store) =
     Raised (AttributeError ''strip'')"
    by (simp add: script_defs n strip_Alex ex_to_datetime_def null_doc_def)
  have c1: "map_of noprio_doc ''Priority'' = None" by (simp add: noprio_doc_def)
  have c2: "task_form noprio_doc = Inr (VId 6, TaskForm (VId 6) (VStr ''Plan'') 0 1)"
    by (simp add: task_form_def get_item_def get_default_def STATUS_OPTIONS_def PRIORITY_OPTIONS_def
        noprio_doc_def)
  from a1 a2 b2 b3 b4 c1 c2 show ?thesis by (simp add: blocked_doc_def)
qed

subsection \<open>Auxiliary facts about the rows of the table\<close>

lemma pending_rows_eq:
  "\<forall>t\<in>set ts. map_of t ''Status'' \<noteq> None \<and>
       (map_of t ''Status'' \<noteq> Some (VStr ''Completed'') \<longrightarrow> map_of t ''Task'' \<noteq> None) \<Longrightarrow>
   pending_rows ts =
     Inr (map (\<lambda>t. (get_default t ''Task'' VNull, get_default t ''Priority'' (VStr ''Medium''),
                     get_default t ''DueDate'' (VStr ''N/A'')))
            (filter (\<lambda>t. map_of t ''Status'' \<noteq> Some (VStr ''Completed'')) ts))"
  by (induction ts) (auto simp: get_item_def get_default_def)

lemma pending_rows_no_title:
  assumes "\<forall>t\<in>set ts. map_of t ''Status'' \<noteq> None"
      and "t \<in> set ts" and "map_of t ''Status'' \<noteq> Some (VStr ''Completed'')"
      and "map_of t ''Task'' = None"
  shows "pending_rows ts = Inl (KeyError ''Task'')"
  using assms
proof (induction ts)
  case Nil
  then show ?case by simp
next
  case (Cons a ts)
  from Cons.prems(1) obtain s where s: "map_of a ''Status'' = Some s" by auto
  show ?case
  proof (cases "t = a")
    case True
    with Cons.prems s show ?thesis by (simp add: get_item_def)
  next
    case False
    with Cons have ih: "pending_rows ts = Inl (KeyError ''Task'')" by auto
    show ?thesis
    proof (cases "map_of a ''Task''")
      case None
      with s ih show ?thesis by (simp add: get_item_def)
    next
      case (Some title)
      with s ih show ?thesis by (simp add: get_item_def)
    qed
  qed
qed

lemma zip_by_index:
  "length xs = length ys \<Longrightarrow> zip xs ys = map (\<lambda>i. (xs ! i, ys ! i)) [0..<length xs]"
  by (rule nth_equalityI) auto

lemma map_filter_map: "List.map_filter f (map g xs) = List.map_filter (\<lambda>x. f (g x)) xs"
  by (induction xs) (simp_all add: map_filter_simps split: option.splits)

lemma map_filter_agree:
  "\<forall>x\<in>set xs. f x = g x \<Longrightarrow> List.map_filter f xs = List.map_filter g xs"
  by (induction xs) (simp_all add: map_filter_simps split: option.splits)

lemma all_completed:
  assumes "length (filter P xs) = length xs"
  shows "\<forall>x\<in>set xs. P x"
proof -
  have "length (filter P xs) + length (filter (\<lambda>x. \<not> P x) xs) = length xs"
    by (rule sum_length_filter_compl)
  with assms have "filter (\<lambda>x. \<not> P x) xs = []" by simp
  then show ?thesis by (simp add: filter_empty_conv)
qed

lemma coerce_dropna_spec:
  assumes len: "\<forall>col. length (to_datetime col) = length col"
      and na: "\<forall>col i. i < length col \<longrightarrow> col ! i = VStr ''N/A'' \<longrightarrow> to_datetime col ! i = None"
      and wf: "\<forall>t\<in>set all_tasks. map_of t ''Status'' \<noteq> None \<and>
                 (map_of t ''Status'' \<noteq> Some (VStr ''Completed'') \<longrightarrow> map_of t ''Task'' \<noteq> None)"
      and rs: "pending_rows all_tasks = Inr rs"
  shows "coerce_dropna to_datetime rs = spec_deadlines to_datetime all_tasks"
proof -
  define pending where "pending = filter (\<lambda>t. map_of t ''Status'' \<noteq> Some (VStr ''Completed'')) all_tasks"
  define col where "col = map (\<lambda>t. get_default t ''DueDate'' (VStr ''N/A'')) pending"
  define dates where "dates = to_datetime col"
  define row3 where "row3 = (\<lambda>t. (get_default t ''Task'' VNull, get_default t ''Priority'' (VStr ''Medium''),
                     get_default t ''DueDate'' (VStr ''N/A'')))"
  define g where "g = (\<lambda>rc :: (val \<times> val \<times> val) \<times> int option. case snd rc of
                   None \<Rightarrow> None
                 | Some d \<Rightarrow>
                     Some \<lparr>row_task = fst (fst rc), row_priority = fst (snd (fst rc)), row_due = d\<rparr>)"
  define h where "h = (\<lambda>i. case map_of (pending ! i) ''DueDate'' of
                   None \<Rightarrow> None
                 | Some due \<Rightarrow>
                     (case dates ! i of
                        None \<Rightarrow> None
                      | Some d \<Rightarrow>
                          (case map_of (pending ! i) ''Task'' of
                             None \<Rightarrow> None
                           | Some title \<Rightarrow>
                               Some \<lparr>row_task = title,
                                     row_priority = get_default (pending ! i) ''Priority'' (VStr ''Medium''),
                                     row_due = d\<rparr>)))"
  from rs pending_rows_eq [OF wf] have rs_eq: "rs = map row3 pending"
    by (simp add: pending_def row3_def)
  have col_eq: "map (\<lambda>r. snd (snd r)) rs = col"
    by (simp add: rs_eq col_def row3_def comp_def)
  have ld: "length dates = length pending"
    using len by (simp add: dates_def col_def)
  have code: "coerce_dropna to_datetime rs = List.map_filter g (zip rs dates)"
    by (simp add: coerce_dropna_def col_eq dates_def g_def Let_def)
  have "zip rs dates = map (\<lambda>i. (rs ! i, dates ! i)) [0..<length pending]"
    using zip_by_index [of rs dates] ld by (simp add: rs_eq)
  then have code': "coerce_dropna to_datetime rs =
      List.map_filter (\<lambda>i. g (rs ! i, dates ! i)) [0..<length pending]"
    by (simp add: code map_filter_map)
  have agree: "\<forall>i\<in>set [0..<length pending]. g (rs ! i, dates ! i) = h i"
  proof
    fix i assume "i \<in> set [0..<length pending]"
    then have i: "i < length pending" by simp
    then have "pending ! i \<in> set pending" by simp
    then have "pending ! i \<in> set all_tasks"
      and nd: "map_of (pending ! i) ''Status'' \<noteq> Some (VStr ''Completed'')"
      by (simp_all add: pending_def)
    with wf obtain title where title: "map_of (pending ! i) ''Task'' = Some title" by blast
    have r: "rs ! i = row3 (pending ! i)" using i by (simp add: rs_eq)
    show "g (rs ! i, dates ! i) = h i"
    proof (cases "map_of (pending ! i) ''DueDate''")
      case None
      then have "col ! i = VStr ''N/A''" using i by (simp add: col_def get_default_def)
      moreover have "i < length col" using i by (simp add: col_def)
      ultimately have "dates ! i = None" using na by (simp add: dates_def)
      with None show ?thesis by (simp add: g_def h_def)
    next
      case (Some due)
      with title r show ?thesis
        by (simp add: g_def h_def row3_def get_default_def split: option.splits)
    qed
  qed
  have "spec_deadlines to_datetime all_tasks = List.map_filter h [0..<length pending]"
    unfolding spec_deadlines_def Let_def h_def dates_def col_def pending_def by (rule refl)
  with code' map_filter_agree [OF agree] show ?thesis by simp
qed

subsection \<open>The upcoming-deadlines table\<close>

text \<open>
  C2, as stated, fails: it does not hold for every fetched task list. In a list with a
  pending task that has no title, line 151 raises KeyError and no table is shown,
  although the tasks of the list are not Completed and have due dates that convert; in a
  list with a task without status the pass fails before the panel.
\<close>

theorem upcoming_table_counterexample:
  "map_of notitle_doc ''Status'' = Some (VStr ''Pending'') \<and>
   map_of notitle_doc ''DueDate'' = Some (VDate 20) \<and>
   map_of alex_doc ''Status'' = Some (VStr ''Pending'') \<and>
   map_of alex_doc ''DueDate'' = Some (VDate 100) \<and>
   ex_to_datetime [VDate 20, VDate 100] = [Some 20, Some 100] \<and>
   kpi [notitle_doc, alex_doc] = Inr (2, 0, 2) \<and>
   upcoming ex_to_datetime '' Alex '' 2 [notitle_doc, alex_doc] = Inl (KeyError ''Task'') \<and>
   main_page ex_to_datetime ex_inputs [notitle_doc, alex_doc] ex_store =
     \<lparr>shown = [Metric ''Total Tasks'' 2, Metric ''Completed'' 0, Metric ''Pending'' 2,
               PlotlyChart [VStr ''Pending'', VStr ''Pending'']],
      ending = Raised (KeyError ''Task''), final = ex_store\<rparr> \<and>
   main_page ex_to_datetime ex_inputs [nostatus_doc, alex_doc] ex_store =
     \<lparr>shown = [], ending = Raised (KeyError ''Status''), final = ex_store\<rparr>"
proof -
  have e: "event ex_inputs = NoEvent" "username ex_inputs = '' Alex ''"
      "filter_status ex_inputs = [Pending, In_Progress, Completed]"
    by (simp_all add: ex_inputs_def)
  have k: "kpi [notitle_doc, alex_doc] = Inr (2, 0, 2)"
    by (simp add: kpi_def get_item_def notitle_doc_def alex_doc_def)
  have u: "upcoming ex_to_datetime '' Alex '' 2 [notitle_doc, alex_doc] = Inl (KeyError ''Task'')"
    by (simp add: upcoming_def strip_Alex get_item_def notitle_doc_def alex_doc_def)
  have m1: "main_page ex_to_datetime ex_inputs [notitle_doc, alex_doc] ex_store =
     \<lparr>shown = [Metric ''Total Tasks'' 2, Metric ''Completed'' 0, Metric ''Pending'' 2,
               PlotlyChart [VStr ''Pending'', VStr ''Pending'']],
      ending = Raised (KeyError ''Task''), final = ex_store\<rparr>"
    by (simp add: script_defs e strip_Alex notitle_doc_def alex_doc_def)
  have m2: "main_page ex_to_datetime ex_inputs [nostatus_doc, alex_doc] ex_store =
     \<lparr>shown = [], ending = Raised (KeyError ''Status''), final = ex_store\<rparr>"
    by (simp add: main_page_def kpi_def get_item_def nostatus_doc_def)
  from k u m1 m2 show ?thesis
    by (simp add: notitle_doc_def alex_doc_def ex_to_datetime_def)
qed

text \<open>
  C2, amended. Let the conversion keep the length of the column and turn the placeholder
  \<^verbatim>\<open>"N/A"\<close> of a missing due date into NaT, and let the user be non-blank. (1) When
  every fetched task has a status and every task that is not Completed has a title, the
  KPI count succeeds and, when the pending count is positive, the panel is a table whose
  rows are exactly (as a multiset) the rows of the tasks that are not Completed and have
  a due date which the conversion of the column turns into a date, in non-decreasing
  order of due date; when the pending count is 0 the panel is the message and no task
  qualifies. (2) A task without status makes the KPI count fail with KeyError. (3) When
  all tasks have a status and a task that is not Completed has no title, the panel fails
  with KeyError.
\<close>

theorem upcoming_table:
  assumes len: "\<forall>col. length (to_datetime col) = length col"
      and na: "\<forall>col i. i < length col \<longrightarrow> col ! i = VStr ''N/A'' \<longrightarrow> to_datetime col ! i = None"
      and user: "strip user \<noteq> []"
  shows "((\<forall>t\<in>set all_tasks. map_of t ''Status'' \<noteq> None \<and>
             (map_of t ''Status'' \<noteq> Some (VStr ''Completed'') \<longrightarrow> map_of t ''Task'' \<noteq> None)) \<longrightarrow>
          (\<exists>c. kpi all_tasks = Inr c \<and>
             (if snd (snd c) > 0 then
                (\<exists>rows. upcoming to_datetime user (snd (snd c)) all_tasks = Inr [DataFrame rows] \<and>
                        mset rows = mset (spec_deadlines to_datetime all_tasks) \<and>
                        sorted (map row_due rows))
              else
                upcoming to_datetime user (snd (snd c)) all_tasks =
                  Inr [Info ''No pending tasks with deadlines.''] \<and>
                spec_deadlines to_datetime all_tasks = []))) \<and>
         ((\<exists>t\<in>set all_tasks. map_of t ''Status'' = None) \<longrightarrow>
            kpi all_tasks = Inl (KeyError ''Status'')) \<and>
         ((\<forall>t\<in>set all_tasks. map_of t ''Status'' \<noteq> None) \<and>
          (\<exists>t\<in>set all_tasks. map_of t ''Status'' \<noteq> Some (VStr ''Completed'') \<and>
                              map_of t ''Task'' = None) \<longrightarrow>
            (\<exists>c. kpi all_tasks = Inr c \<and>
                 upcoming to_datetime user (snd (snd c)) all_tasks = Inl (KeyError ''Task'')))"
proof (intro conjI impI)
  let ?done = "\<lambda>t. map_of t ''Status'' = Some (VStr ''Completed'')"
  let ?pend = "\<lambda>t. map_of t ''Status'' \<noteq> Some (VStr ''Completed'')"
  let ?c = "(int (length all_tasks), int (length (filter ?done all_tasks)),
             int (length (filter ?pend all_tasks)))"
  assume wf: "\<forall>t\<in>set all_tasks. map_of t ''Status'' \<noteq> None \<and>
             (map_of t ''Status'' \<noteq> Some (VStr ''Completed'') \<longrightarrow> map_of t ''Task'' \<noteq> None)"
  then have st: "\<forall>t\<in>set all_tasks. map_of t ''Status'' \<noteq> None" by blast
  have k: "kpi all_tasks = Inr ?c" by (rule kpi_counts [OF st])
  from pending_rows_eq [OF wf] obtain rs where rs: "pending_rows all_tasks = Inr rs" by blast
  show "\<exists>c. kpi all_tasks = Inr c \<and>
             (if snd (snd c) > 0 then
                (\<exists>rows. upcoming to_datetime user (snd (snd c)) all_tasks = Inr [DataFrame rows] \<and>
                        mset rows = mset (spec_deadlines to_datetime all_tasks) \<and>
                        sorted (map row_due rows))
              else
                upcoming to_datetime user (snd (snd c)) all_tasks =
                  Inr [Info ''No pending tasks with deadlines.''] \<and>
                spec_deadlines to_datetime all_tasks = [])"
  proof (cases "filter ?pend all_tasks = []")
    case False
    then have pos: "snd (snd ?c) > 0" by simp
    let ?rows = "sort_values (coerce_dropna to_datetime rs)"
    have "upcoming to_datetime user (snd (snd ?c)) all_tasks = Inr [DataFrame ?rows]"
      using pos user by (simp add: upcoming_def rs)
    moreover have "mset ?rows = mset (spec_deadlines to_datetime all_tasks)"
      by (simp add: sort_values_def coerce_dropna_spec [OF len na wf rs])
    moreover have "sorted (map row_due ?rows)"
      by (simp add: sort_values_def)
    ultimately show ?thesis using k pos by (intro exI [of _ ?c]) simp
  next
    case True
    then have zero: "\<not> snd (snd ?c) > 0" by simp
    have "spec_deadlines to_datetime all_tasks = []"
      by (simp add: spec_deadlines_def True map_filter_simps)
    moreover have "upcoming to_datetime user (snd (snd ?c)) all_tasks =
        Inr [Info ''No pending tasks with deadlines.'']"
      using True user by (simp add: upcoming_def)
    ultimately show ?thesis using k zero by (intro exI [of _ ?c]) simp
  qed
next
  assume "\<exists>t\<in>set all_tasks. map_of t ''Status'' = None"
  then obtain t where "t \<in> set all_tasks" and "map_of t ''Status'' = None" by blast
  then have "completed_count all_tasks = Inl (KeyError ''Status'')"
    by (rule completed_count_Inl)
  then show "kpi all_tasks = Inl (KeyError ''Status'')" by (simp add: kpi_def)
next
  let ?done = "\<lambda>t. map_of t ''Status'' = Some (VStr ''Completed'')"
  let ?pend = "\<lambda>t. map_of t ''Status'' \<noteq> Some (VStr ''Completed'')"
  let ?c = "(int (length all_tasks), int (length (filter ?done all_tasks)),
             int (length (filter ?pend all_tasks)))"
  assume a: "(\<forall>t\<in>set all_tasks. map_of t ''Status'' \<noteq> None) \<and>
          (\<exists>t\<in>set all_tasks. map_of t ''Status'' \<noteq> Some (VStr ''Completed'') \<and>
                              map_of t ''Task'' = None)"
  then have st: "\<forall>t\<in>set all_tasks. map_of t ''Status'' \<noteq> None" by blast
  from a obtain t where t: "t \<in> set all_tasks" "?pend t" "map_of t ''Task'' = None" by blast
  have k: "kpi all_tasks = Inr ?c" by (rule kpi_counts [OF st])
  from t have "filter ?pend all_tasks \<noteq> []" by (auto simp: filter_empty_conv)
  then have pos: "snd (snd ?c) > 0" by simp
  have "pending_rows all_tasks = Inl (KeyError ''Task'')"
    using st t by (rule pending_rows_no_title)
  then have "upcoming to_datetime user (snd (snd ?c)) all_tasks = Inl (KeyError ''Task'')"
    using pos user by (simp add: upcoming_def)
  with k show "\<exists>c. kpi all_tasks = Inr c \<and>
                 upcoming to_datetime user (snd (snd c)) all_tasks = Inl (KeyError ''Task'')"
    by (intro exI [of _ ?c]) simp
qed

lemma ex_to_datetime_length: "\<forall>col. length (ex_to_datetime col) = length col"
  by (simp add: ex_to_datetime_def)

lemma ex_to_datetime_NA:
  "\<forall>col i. i < length col \<longrightarrow> col ! i = VStr ''N/A'' \<longrightarrow> ex_to_datetime col ! i = None"
  by (simp add: ex_to_datetime_def)

lemma fmt_to_datetime_length: "\<forall>col. length (fmt_to_datetime col) = length col"
  by (simp add: fmt_to_datetime_def)

lemma fmt_to_datetime_NA:
  "\<forall>col i. i < length col \<longrightarrow> col ! i = VStr ''N/A'' \<longrightarrow> fmt_to_datetime col ! i = None"
  by (simp add: fmt_to_datetime_def)

theorem upcoming_table_witness:
  "length (ex_to_datetime [VDate 100, VStr ''N/A'', VDate 70]) = 3 \<and>
   ex_to_datetime [VDate 100, VStr ''N/A'', VDate 70] ! 1 = None \<and>
   strip '' Alex '' \<noteq> [] \<and>
   kpi [alex_doc, blocked_doc, done_doc, alex_doc2] = Inr (4, 1, 3) \<and>
   upcoming ex_to_datetime '' Alex '' 3 [alex_doc, blocked_doc, done_doc, alex_doc2] =
     Inr [DataFrame [\<lparr>row_task = VStr ''Call client'', row_priority = VStr ''Medium'', row_due = 70\<rparr>,
                     \<lparr>row_task = VStr ''Write report'', row_priority = VStr ''High'', row_due = 100\<rparr>]] \<and>
   spec_deadlines ex_to_datetime [alex_doc, blocked_doc, done_doc, alex_doc2] =
     [\<lparr>row_task = VStr ''Write report'', row_priority = VStr ''High'', row_due = 100\<rparr>,
      \<lparr>row_task = VStr ''Call client'', row_priority = VStr ''Medium'', row_due = 70\<rparr>] \<and>
   kpi [done_doc] = Inr (1, 1, 0) \<and>
   upcoming ex_to_datetime '' Alex '' 0 [done_doc] = Inr [Info ''No pending tasks with deadlines.''] \<and>
   spec_deadlines ex_to_datetime [done_doc] = [] \<and>
   kpi [nostatus_doc, alex_doc] = Inl (KeyError ''Status'') \<and>
   kpi [notitle_doc, alex_doc] = Inr (2, 0, 2) \<and>
   upcoming ex_to_datetime '' Alex '' 2 [notitle_doc, alex_doc] = Inl (KeyError ''Task'') \<and>
   fmt_to_datetime [VStr ''2024-06-02'', VStr ''06/01/2024''] = [Some 1717286400000, None] \<and>
   fmt_to_datetime [VStr ''06/01/2024'', VStr ''2024-06-02''] = [Some 1717200000000, None] \<and>
   kpi [iso_doc, us_doc] = Inr (2, 0, 2) \<and>
   upcoming fmt_to_datetime '' Alex '' 2 [iso_doc, us_doc] =
     Inr [DataFrame [\<lparr>row_task = VStr ''Book venue'', row_priority = VStr ''High'',
                      row_due = 1717286400000\<rparr>]] \<and>
   spec_deadlines fmt_to_datetime [iso_doc, us_doc] =
     [\<lparr>row_task = VStr ''Book venue'', row_priority = VStr ''High'', row_due = 1717286400000\<rparr>] \<and>
   kpi [us_doc, iso_doc] = Inr (2, 0, 2) \<and>
   upcoming fmt_to_datetime '' Alex '' 2 [us_doc, iso_doc] =
     Inr [DataFrame [\<lparr>row_task = VStr ''Send invites'', row_priority = VStr ''Low'',
                      row_due = 1717200000000\<rparr>]] \<and>
   spec_deadlines fmt_to_datetime [us_doc, iso_doc] =
     [\<lparr>row_task = VStr ''Send invites'', row_priority = VStr ''Low'', row_due = 1717200000000\<rparr>]"
proof -
  note len = ex_to_datetime_length and na = ex_to_datetime_NA
  have user: "strip '' Alex '' \<noteq> []" by (simp add: strip_Alex)
  have h2: "\<forall>t\<in>set [alex_doc, blocked_doc, done_doc, alex_doc2].
              map_of t ''Status'' \<noteq> None \<and>
              (map_of t ''Status'' \<noteq> Some (VStr ''Completed'') \<longrightarrow> map_of t ''Task'' \<noteq> None)"
    by (simp add: alex_doc_def blocked_doc_def done_doc_def alex_doc2_def)
  have h2': "\<forall>t\<in>set [done_doc]. map_of t ''Status'' \<noteq> None \<and>
              (map_of t ''Status'' \<noteq> Some (VStr ''Completed'') \<longrightarrow> map_of t ''Task'' \<noteq> None)"
    by (simp add: done_doc_def)
  have k1: "kpi [alex_doc, blocked_doc, done_doc, alex_doc2] = Inr (4, 1, 3)"
    by (simp add: kpi_def get_item_def alex_doc_def blocked_doc_def done_doc_def alex_doc2_def)
  have k2: "kpi [done_doc] = Inr (1, 1, 0)"
    by (simp add: kpi_def get_item_def done_doc_def)
  have k3: "kpi [notitle_doc, alex_doc] = Inr (2, 0, 2)"
    by (simp add: kpi_def get_item_def notitle_doc_def alex_doc_def)
  have s1: "spec_deadlines ex_to_datetime [alex_doc, blocked_doc, done_doc, alex_doc2] =
     [\<lparr>row_task = VStr ''Write report'', row_priority = VStr ''High'', row_due = 100\<rparr>,
      \<lparr>row_task = VStr ''Call client'', row_priority = VStr ''Medium'', row_due = 70\<rparr>]"
    by (simp add: spec_deadlines_def map_filter_simps ex_to_datetime_def get_default_def upt_rec
        alex_doc_def blocked_doc_def done_doc_def alex_doc2_def)
  have u1: "upcoming ex_to_datetime '' Alex '' 3 [alex_doc, blocked_doc, done_doc, alex_doc2] =
     Inr [DataFrame [\<lparr>row_task = VStr ''Call client'', row_priority = VStr ''Medium'', row_due = 70\<rparr>,
                     \<lparr>row_task = VStr ''Write report'', row_priority = VStr ''High'', row_due = 100\<rparr>]]"
    by (simp add: upcoming_def strip_Alex get_item_def get_default_def sort_values_def
        coerce_dropna_def map_filter_simps ex_to_datetime_def
        alex_doc_def blocked_doc_def done_doc_def alex_doc2_def)
  from upcoming_table [of ex_to_datetime, OF len na user, of "[done_doc]"] h2' k2
  have u2: "upcoming ex_to_datetime '' Alex '' 0 [done_doc] = Inr [Info ''No pending tasks with deadlines.''] \<and>
    spec_deadlines ex_to_datetime [done_doc] = []"
    by auto
  from upcoming_table [of ex_to_datetime, OF len na user, of "[alex_doc, blocked_doc, done_doc, alex_doc2]"]
    h2 k1 u1
  have "mset [\<lparr>row_task = VStr ''Call client'', row_priority = VStr ''Medium'', row_due = 70\<rparr>,
              \<lparr>row_task = VStr ''Write report'', row_priority = VStr ''High'', row_due = 100\<rparr>] =
        mset (spec_deadlines ex_to_datetime [alex_doc, blocked_doc, done_doc, alex_doc2])"
    by auto
  have f1: "\<exists>t\<in>set [nostatus_doc, alex_doc]. map_of t ''Status'' = None"
    by (simp add: nostatus_doc_def)
  from upcoming_table [of ex_to_datetime, OF len na user, of "[nostatus_doc, alex_doc]"] f1
  have u3: "kpi [nostatus_doc, alex_doc] = Inl (KeyError ''Status'')" by blast
  have f2: "(\<forall>t\<in>set [notitle_doc, alex_doc]. map_of t ''Status'' \<noteq> None) \<and>
          (\<exists>t\<in>set [notitle_doc, alex_doc]. map_of t ''Status'' \<noteq> Some (VStr ''Completed'') \<and>
                              map_of t ''Task'' = None)"
    by (simp add: notitle_doc_def alex_doc_def)
  from upcoming_table [of ex_to_datetime, OF len na user, of "[notitle_doc, alex_doc]"] f2 k3
  have u4: "upcoming ex_to_datetime '' Alex '' 2 [notitle_doc, alex_doc] = Inl (KeyError ''Task'')"
    by auto
  have l: "length (ex_to_datetime [VDate 100, VStr ''N/A'', VDate 70]) = 3 \<and>
           ex_to_datetime [VDate 100, VStr ''N/A'', VDate 70] ! 1 = None"
    by (simp add: ex_to_datetime_def)
  have fm: "fmt_to_datetime [VStr ''2024-06-02'', VStr ''06/01/2024''] = [Some 1717286400000, None]"
      "fmt_to_datetime [VStr ''06/01/2024'', VStr ''2024-06-02''] = [Some 1717200000000, None]"
    by (simp_all add: fmt_to_datetime_def)
  have g: "\<forall>t\<in>set [iso_doc, us_doc]. map_of t ''Status'' \<noteq> None \<and>
              (map_of t ''Status'' \<noteq> Some (VStr ''Completed'') \<longrightarrow> map_of t ''Task'' \<noteq> None)"
    and g': "\<forall>t\<in>set [us_doc, iso_doc]. map_of t ''Status'' \<noteq> None \<and>
              (map_of t ''Status'' \<noteq> Some (VStr ''Completed'') \<longrightarrow> map_of t ''Task'' \<noteq> None)"
    by (simp_all add: iso_doc_def us_doc_def)
  have k4: "kpi [iso_doc, us_doc] = Inr (2, 0, 2)" and k5: "kpi [us_doc, iso_doc] = Inr (2, 0, 2)"
    by (simp_all add: kpi_def get_item_def iso_doc_def us_doc_def)
  have s4: "spec_deadlines fmt_to_datetime [iso_doc, us_doc] =
     [\<lparr>row_task = VStr ''Book venue'', row_priority = VStr ''High'', row_due = 1717286400000\<rparr>]"
    and s5: "spec_deadlines fmt_to_datetime [us_doc, iso_doc] =
     [\<lparr>row_task = VStr ''Send invites'', row_priority = VStr ''Low'', row_due = 1717200000000\<rparr>]"
    by (simp_all add: spec_deadlines_def map_filter_simps fmt_to_datetime_def get_default_def upt_rec
        iso_doc_def us_doc_def)
  from upcoming_table [of fmt_to_datetime, OF fmt_to_datetime_length fmt_to_datetime_NA user,
      of "[iso_doc, us_doc]"] g k4
  obtain rows4 where r4: "upcoming fmt_to_datetime '' Alex '' 2 [iso_doc, us_doc] = Inr [DataFrame rows4]"
      "mset rows4 = mset (spec_deadlines fmt_to_datetime [iso_doc, us_doc])"
    by auto
  from r4(2) have "rows4 =
      [\<lparr>row_task = VStr ''Book venue'', row_priority = VStr ''High'', row_due = 1717286400000\<rparr>]"
    by (simp add: s4 mset_single_iff_right)
  with r4(1) have u5: "upcoming fmt_to_datetime '' Alex '' 2 [iso_doc, us_doc] =
     Inr [DataFrame [\<lparr>row_task = VStr ''Book venue'', row_priority = VStr ''High'',
                      row_due = 1717286400000\<rparr>]]"
    by simp
  from upcoming_table [of fmt_to_datetime, OF fmt_to_datetime_length fmt_to_datetime_NA user,
      of "[us_doc, iso_doc]"] g' k5
  obtain rows5 where r5: "upcoming fmt_to_datetime '' Alex '' 2 [us_doc, iso_doc] = Inr [DataFrame rows5]"
      "mset rows5 = mset (spec_deadlines fmt_to_datetime [us_doc, iso_doc])"
    by auto
  from r5(2) have "rows5 =
      [\<lparr>row_task = VStr ''Send invites'', row_priority = VStr ''Low'', row_due = 1717200000000\<rparr>]"
    by (simp add: s5 mset_single_iff_right)
  with r5(1) have u6: "upcoming fmt_to_datetime '' Alex '' 2 [us_doc, iso_doc] =
     Inr [DataFrame [\<lparr>row_task = VStr ''Send invites'', row_priority = VStr ''Low'',
                      row_due = 1717200000000\<rparr>]]"
    by simp
  from l user k1 k2 k3 u1 u2 u3 u4 s1 fm k4 k5 s4 s5 u5 u6 show ?thesis by simp
qed

end
